theory Spec2Isabelle
  imports Complex_Main
begin

section \<open>The Gaussian-process covariance engine of \<^verbatim>\<open>bsfh/likelihood/gp.py\<close>\<close>

text \<open>
  The module is written against NumPy and SciPy under Python 2.  The embedding fixes the
  following conventions.
  \<^item> A float is a \<^typ>\<open>real\<close>: arithmetic is exact, there is no rounding, overflow or NaN.
    The one place where the source tests for a non-finite value (\<^verbatim>\<open>np.isfinite(self.log_det)\<close>)
    is kept as a branch: the logarithm of a non-positive number is the value \<open>NonFinite\<close>.
  \<^item> A 1-D array is a list, a 2-D array is the list of its rows.  An array with no rows is
    the \<open>0 \<times> 0\<close> array.  Arrays are values: the caller replaces them, it does not write
    into an array the object still holds.
  \<^item> An exception is a value of type \<open>error\<close>.  A method that only reads the object returns
    \<open>error + 'a\<close>; a method that assigns attributes before it may raise returns the object
    together with the outcome, because the attributes assigned before the raise stay assigned.
  \<^item> \<^verbatim>\<open>np.array_equal(a, b)\<close> on two arrays is equality of the two values.  On the
    parameter tuples it is \<open>array_equal_params\<close> below.
  \<^item> \<^verbatim>\<open>np.exp\<close> is the real exponential.  The real exponential is injective and the
    floating-point one is not, so no property below rests on its injectivity.
  \<^item> \<^verbatim>\<open>scipy.linalg.cho_factor\<close> and \<^verbatim>\<open>cho_solve\<close> are library code.  The engine takes them
    as a parameter \<open>la\<close>; \<open>exact_linalg\<close> below is their exact-arithmetic behaviour.
\<close>

datatype error = TypeError | ValueError | AssertionError | AttributeError | IndexError | LinAlgError

type_synonym vec = "real list"
type_synonym matrix = "real list list"

text \<open>A Python number or a 1-D array: the \<^verbatim>\<open>flux\<close> argument and the result of \<^verbatim>\<open>construct_diagonal\<close>.\<close>

datatype scalar_or_vec = Scalar real | Vector vec

text \<open>The result of \<^verbatim>\<open>np.log\<close> and of arithmetic on it: a real number, or one of inf, -inf, nan.\<close>

datatype npfloat = Finite real | NonFinite

datatype variant = ExpSquared | Matern | PhotOutlier

text \<open>
  The tuples returned by \<^verbatim>\<open>kernel_to_params\<close>: \<open>(s, asquared, lsquared)\<close> for the two smooth
  kernels and \<open>(jitter, locs, amps)\<close> for \<open>PhotOutlier\<close>.
\<close>

datatype params = Smooth real real real | Outlier real vec vec

text \<open>
  The attributes of a \<^verbatim>\<open>GaussianProcess\<close> object.  \<open>gp_params\<close>, \<open>gp_wave\<close>, \<open>gp_sigma\<close> and
  \<open>gp_flux\<close> are \<^verbatim>\<open>_params\<close>, \<^verbatim>\<open>_wave\<close>, \<^verbatim>\<open>_sigma\<close> and \<^verbatim>\<open>_flux\<close>; \<open>None\<close> is Python's
  \<^verbatim>\<open>None\<close>.  \<open>log_det\<close> does not exist before the first rebuild assigns it, and \<open>Sigma\<close>
  exists only when the caller has set it by hand; for both, \<open>None\<close> is the missing attribute.
\<close>

record gp =
  kernel :: vec
  gp_params :: "params option"
  gp_wave :: "vec option"
  gp_sigma :: "vec option"
  gp_flux :: scalar_or_vec
  params_clean :: bool
  data_clean :: bool
  factorized_Sigma :: "matrix option"
  log_det :: "npfloat option"
  Sigma :: "matrix option"

text \<open>The two SciPy routines the engine calls.\<close>

record linalg =
  cho_factor :: "matrix \<Rightarrow> error + matrix"
  cho_solve :: "matrix \<Rightarrow> matrix \<Rightarrow> error + matrix"

subsection \<open>Array helpers\<close>

definition nrows :: "matrix \<Rightarrow> nat" where
  "nrows A = length A"

definition ncols :: "matrix \<Rightarrow> nat" where
  "ncols A = (case A of [] \<Rightarrow> 0 | r # _ \<Rightarrow> length r)"

text \<open>NumPy broadcasting of one axis: equal extents, or one of them is 1.\<close>

definition bdim :: "nat \<Rightarrow> nat \<Rightarrow> nat option" where
  "bdim m n = (if m = n then Some m else if m = 1 then Some n else if n = 1 then Some m else None)"

definition bidx :: "nat \<Rightarrow> nat \<Rightarrow> nat" where
  "bidx m i = (if m = 1 then 0 else i)"

definition broadcast1 :: "(real \<Rightarrow> real \<Rightarrow> real) \<Rightarrow> vec \<Rightarrow> vec \<Rightarrow> error + vec" where
  "broadcast1 f a b =
     (case bdim (length a) (length b) of
        None \<Rightarrow> Inl ValueError
      | Some n \<Rightarrow> Inr (map (\<lambda>i. f (a ! bidx (length a) i) (b ! bidx (length b) i)) [0..<n]))"

definition broadcast2 :: "(real \<Rightarrow> real \<Rightarrow> real) \<Rightarrow> matrix \<Rightarrow> matrix \<Rightarrow> error + matrix" where
  "broadcast2 f A B =
     (case bdim (nrows A) (nrows B) of
        None \<Rightarrow> Inl ValueError
      | Some r \<Rightarrow>
         (case bdim (ncols A) (ncols B) of
            None \<Rightarrow> Inl ValueError
          | Some c \<Rightarrow>
              Inr (map (\<lambda>i. map (\<lambda>j. f (A ! bidx (nrows A) i ! bidx (ncols A) j)
                                        (B ! bidx (nrows B) i ! bidx (ncols B) j)) [0..<c])
                       [0..<r])))"

text \<open>\<^verbatim>\<open>v[:,None]\<close> and \<^verbatim>\<open>v[None,:]\<close>.\<close>

definition as_column :: "vec \<Rightarrow> matrix" where
  "as_column v = map (\<lambda>x. [x]) v"

definition as_row :: "vec \<Rightarrow> matrix" where
  "as_row v = [v]"

text \<open>\<^verbatim>\<open>a[:,None] * S * b[None,:]\<close>, evaluated left to right.\<close>

definition scale_outer :: "vec \<Rightarrow> matrix \<Rightarrow> vec \<Rightarrow> error + matrix" where
  "scale_outer a S b =
     (case broadcast2 (*) (as_column a) S of
        Inl e \<Rightarrow> Inl e
      | Inr T \<Rightarrow> broadcast2 (*) T (as_row b))"

definition upd_entry :: "matrix \<Rightarrow> nat \<Rightarrow> nat \<Rightarrow> real \<Rightarrow> matrix" where
  "upd_entry A i j x = A[i := (A ! i)[j := x]]"

text \<open>
  \<^verbatim>\<open>S[dinds] += d\<close>, where \<open>dinds\<close> are the \<open>n\<close> diagonal positions taken from the matrix before
  it was scaled.  \<open>d\<close> is broadcast to \<open>n\<close> values.
\<close>

definition diag_value :: "scalar_or_vec \<Rightarrow> nat \<Rightarrow> real" where
  "diag_value d i = (case d of Scalar c \<Rightarrow> c | Vector w \<Rightarrow> w ! bidx (length w) i)"

definition add_diag :: "nat \<Rightarrow> matrix \<Rightarrow> scalar_or_vec \<Rightarrow> error + matrix" where
  "add_diag n S d =
     (if (case d of Scalar _ \<Rightarrow> False | Vector w \<Rightarrow> length w \<noteq> n \<and> length w \<noteq> 1) then Inl ValueError
      else if n \<noteq> 0 \<and> (nrows S < n \<or> ncols S < n) then Inl IndexError
      else Inr (foldl (\<lambda>T i. upd_entry T i i (S ! i ! i + diag_value d i)) S [0..<n]))"

text \<open>
  \<^verbatim>\<open>x.astype(int)\<close> on a float: truncation towards zero.  The integer is unbounded here; a
  float beyond the range of a 64-bit integer is outside the model.
\<close>

definition astype_int :: "real \<Rightarrow> int" where
  "astype_int x = (if 0 \<le> x then \<lfloor>x\<rfloor> else \<lceil>x\<rceil>)"

text \<open>An index into an axis of extent \<open>n\<close>; a negative index counts from the end.\<close>

definition norm_index :: "nat \<Rightarrow> int \<Rightarrow> error + nat" where
  "norm_index n i =
     (if 0 \<le> i \<and> i < int n then Inr (nat i)
      else if i < 0 \<and> - int n \<le> i then Inr (nat (int n + i))
      else Inl IndexError)"

fun norm_indices :: "nat \<Rightarrow> int list \<Rightarrow> error + nat list" where
  "norm_indices n [] = Inr []"
| "norm_indices n (i # is) =
     (case norm_index n i of
        Inl e \<Rightarrow> Inl e
      | Inr k \<Rightarrow> (case norm_indices n is of Inl e \<Rightarrow> Inl e | Inr ks \<Rightarrow> Inr (k # ks)))"

subsection \<open>Kernel parameters\<close>

text \<open>
  \<^verbatim>\<open>s, asquared, lsquared = np.exp(kernel).tolist()\<close> for the smooth kernels: unpacking
  anything but three values raises.  For \<open>PhotOutlier\<close> the kernel vector is
  \<open>amps @ locs\<close>, followed by the jitter when its length is odd; \<^verbatim>\<open>/\<close> is Python 2's
  integer division.
\<close>

definition kernel_to_params :: "variant \<Rightarrow> vec \<Rightarrow> error + params" where
  "kernel_to_params v k =
     (case v of
        PhotOutlier \<Rightarrow>
          (let jitter = (if length k mod 2 = 1 then 1 else 0 :: nat);
               nout = (length k - jitter) div 2;
               amps = take nout k;
               locs = take nout (drop nout k)
           in Inr (Outlier (if jitter \<noteq> 0 then last k else 0) locs amps))
      | _ \<Rightarrow>
          (case map exp k of
             [s, asquared, lsquared] \<Rightarrow> Inr (Smooth s asquared lsquared)
           | _ \<Rightarrow> Inl ValueError))"

subsection \<open>Kernels and diagonals\<close>

text \<open>
  The body of the base method \<^verbatim>\<open>GaussianProcess.construct_kernel(self)\<close>, which runs only
  when the method is called without arguments.
\<close>

definition base_construct_kernel :: "gp \<Rightarrow> error + matrix" where
  "base_construct_kernel st = (case Sigma st of None \<Rightarrow> Inl AttributeError | Some S \<Rightarrow> Inr S)"

text \<open>
  \<^verbatim>\<open>construct_kernel(x, xstar)\<close> as every caller invokes it, with two positional arguments.
  Row \<open>i\<close> belongs to \<open>xstar ! i\<close>, column \<open>j\<close> to \<open>x ! j\<close>.  \<open>PhotOutlier\<close> does not override
  the method, and the base signature \<^verbatim>\<open>construct_kernel(self)\<close> rejects the two arguments.
\<close>

definition construct_kernel :: "variant \<Rightarrow> gp \<Rightarrow> vec option \<Rightarrow> vec option \<Rightarrow> error + matrix" where
  "construct_kernel v st x xstar =
     (case v of
        PhotOutlier \<Rightarrow> Inl TypeError
      | ExpSquared \<Rightarrow>
          (case gp_params st of
             Some (Smooth s asq lsq) \<Rightarrow>
               (case (xstar, x) of
                  (Some xs, Some x0) \<Rightarrow>
                    Inr (map (\<lambda>a. map (\<lambda>b. asq * exp (- ((a - b)\<^sup>2) / (2 * lsq))) x0) xs)
                | _ \<Rightarrow> Inl TypeError)
           | _ \<Rightarrow> Inl TypeError)
      | Matern \<Rightarrow>
          (case gp_params st of
             Some (Smooth s asq lsq) \<Rightarrow>
               (case (xstar, x) of
                  (Some xs, Some x0) \<Rightarrow>
                    Inr (map (\<lambda>a. map (\<lambda>b. let d = sqrt 3 * (a - b) / sqrt lsq
                                             in (1 + d) * exp (- d)) x0) xs)
                | _ \<Rightarrow> Inl TypeError)
           | _ \<Rightarrow> Inl TypeError))"

text \<open>
  \<^verbatim>\<open>construct_diagonal\<close>; \<open>test\<close> is the keyword argument \<^verbatim>\<open>test=...\<close> when the caller passes
  one.  The base method (inherited by \<open>PhotOutlier\<close>) takes it; the overrides of
  \<open>ExpSquared\<close> and \<open>Matern\<close> have the signature \<^verbatim>\<open>construct_diagonal(self)\<close> and reject it.
\<close>

definition construct_diagonal :: "variant \<Rightarrow> gp \<Rightarrow> bool option \<Rightarrow> error + scalar_or_vec" where
  "construct_diagonal v st test =
     (case v of
        PhotOutlier \<Rightarrow>
          (if test = Some True then Inr (Scalar 0)
           else (case gp_sigma st of
                   None \<Rightarrow> Inl TypeError
                 | Some sg \<Rightarrow> Inr (Vector (map (\<lambda>x. x\<^sup>2) sg))))
      | _ \<Rightarrow>
          (if test \<noteq> None then Inl TypeError
           else (case gp_params st of
                   Some (Smooth s asq lsq) \<Rightarrow>
                     (case gp_sigma st of
                        None \<Rightarrow> Inl TypeError
                      | Some sg \<Rightarrow> Inr (Vector (map (\<lambda>x. x\<^sup>2 + s\<^sup>2) sg)))
                 | _ \<Rightarrow> Inl TypeError)))"

text \<open>\<^verbatim>\<open>np.any(flux != 1)\<close> and \<^verbatim>\<open>np.all(flux == 1)\<close>.\<close>

definition flux_nontrivial :: "scalar_or_vec \<Rightarrow> bool" where
  "flux_nontrivial f = (case f of Scalar c \<Rightarrow> c \<noteq> 1 | Vector w \<Rightarrow> list_ex (\<lambda>c. c \<noteq> 1) w)"

definition flux_all_one :: "scalar_or_vec \<Rightarrow> bool" where
  "flux_all_one f = (case f of Scalar c \<Rightarrow> c = 1 | Vector w \<Rightarrow> list_all (\<lambda>c. c = 1) w)"

subsection \<open>Covariance matrices\<close>

text \<open>\<^verbatim>\<open>np.max(locs)\<close>: raises on an empty array.\<close>

definition np_max :: "int list \<Rightarrow> error + int" where
  "np_max xs = (case xs of [] \<Rightarrow> Inl ValueError | x # ys \<Rightarrow> Inr (fold max ys x))"

text \<open>
  \<^verbatim>\<open>S[(locs, locs)] += vals\<close>: every listed diagonal entry becomes its value before the
  statement plus the corresponding element of \<open>vals\<close>; when an index is listed twice the
  later assignment stands.
\<close>

definition add_at :: "matrix \<Rightarrow> nat list \<Rightarrow> vec \<Rightarrow> error + matrix" where
  "add_at S ks vals =
     (if length vals \<noteq> length ks \<and> length vals \<noteq> 1 then Inl ValueError
      else Inr (foldl (\<lambda>T i. upd_entry T (ks ! i) (ks ! i)
                                (S ! (ks ! i) ! (ks ! i) + vals ! bidx (length vals) i))
                      S [0..<length ks]))"

text \<open>\<^verbatim>\<open>PhotOutlier.construct_covariance\<close>.\<close>

definition outlier_construct_covariance :: "gp \<Rightarrow> error + matrix" where
  "outlier_construct_covariance st =
     (case gp_params st of
        Some (Outlier jitter locs amps) \<Rightarrow>
          (case gp_sigma st of
             None \<Rightarrow> Inl TypeError
           | Some sg \<Rightarrow>
               (let ilocs = map astype_int locs;
                    nw = length sg
                in case (if flux_all_one (gp_flux st) then Vector (replicate nw 1) else gp_flux st) of
                     Scalar _ \<Rightarrow> Inl TypeError
                   | Vector flux \<Rightarrow>
                       (case np_max ilocs of
                          Inl e \<Rightarrow> Inl e
                        | Inr m \<Rightarrow>
                            if \<not> m < int (length flux) then Inl AssertionError
                            else if length flux \<noteq> nw then Inl AssertionError
                            else
                              (let S = map (\<lambda>i. (replicate nw 0)
                                                  [i := (sg ! i)\<^sup>2 + (jitter * flux ! i)\<^sup>2]) [0..<nw]
                               in case norm_indices nw ilocs of
                                    Inl e \<Rightarrow> Inl e
                                  | Inr ks \<Rightarrow>
                                      (case broadcast1 (*) amps (map (\<lambda>k. flux ! k) ks) of
                                         Inl e \<Rightarrow> Inl e
                                       | Inr pr \<Rightarrow> add_at S ks (map (\<lambda>x. x\<^sup>2) pr))))))
      | _ \<Rightarrow> Inl TypeError)"

text \<open>
  \<^verbatim>\<open>construct_covariance\<close>: the base method for the smooth kernels, the override for
  \<open>PhotOutlier\<close>.
\<close>

definition construct_covariance :: "variant \<Rightarrow> gp \<Rightarrow> error + matrix" where
  "construct_covariance v st =
     (case v of
        PhotOutlier \<Rightarrow> outlier_construct_covariance st
      | _ \<Rightarrow>
          (case construct_kernel v st (gp_wave st) (gp_wave st) of
             Inl e \<Rightarrow> Inl e
           | Inr K \<Rightarrow>
               (case (if flux_nontrivial (gp_flux st)
                      then (case gp_flux st of
                              Scalar _ \<Rightarrow> Inl TypeError
                            | Vector f \<Rightarrow> scale_outer f K f)
                      else Inr K) of
                  Inl e \<Rightarrow> Inl e
                | Inr S \<Rightarrow>
                    (case construct_diagonal v st None of
                       Inl e \<Rightarrow> Inl e
                     | Inr d \<Rightarrow> add_diag (length K) S d))))"

text \<open>
  The body of \<^verbatim>\<open>PhotOutlier.construct_covariance_cross(self, **extras)\<close>, which runs only
  when the method is called without a positional argument.
\<close>

definition outlier_construct_covariance_cross :: "gp \<Rightarrow> error + matrix" where
  "outlier_construct_covariance_cross st =
     (case gp_sigma st of
        None \<Rightarrow> Inl TypeError
      | Some sg \<Rightarrow>
          (case outlier_construct_covariance st of
             Inl e \<Rightarrow> Inl e
           | Inr S \<Rightarrow> add_diag (length sg) S (Vector (map (\<lambda>x. - (x\<^sup>2)) sg))))"

text \<open>
  \<^verbatim>\<open>assert (influx is not None) and (len(influx) == len(inwave))\<close>; the result is the
  array \<open>influx\<close>.
\<close>

definition assert_influx :: "scalar_or_vec option \<Rightarrow> vec \<Rightarrow> error + vec" where
  "assert_influx influx inwave =
     (case influx of
        None \<Rightarrow> Inl AssertionError
      | Some (Scalar _) \<Rightarrow> Inl TypeError
      | Some (Vector fi) \<Rightarrow> if length fi = length inwave then Inr fi else Inl AssertionError)"

text \<open>
  \<^verbatim>\<open>construct_covariance_cross(inwave, influx=influx)\<close>, called with \<open>inwave\<close> as a positional
  argument, as \<^verbatim>\<open>predict\<close> does.  The override of \<open>PhotOutlier\<close> accepts keyword arguments
  only.
\<close>

definition construct_covariance_cross ::
    "variant \<Rightarrow> gp \<Rightarrow> vec option \<Rightarrow> scalar_or_vec option \<Rightarrow> error + matrix" where
  "construct_covariance_cross v st inwave influx =
     (case v of
        PhotOutlier \<Rightarrow> Inl TypeError
      | _ \<Rightarrow>
          (case construct_kernel v st (gp_wave st) inwave of
             Inl e \<Rightarrow> Inl e
           | Inr K \<Rightarrow>
               if flux_nontrivial (gp_flux st)
               then (case assert_influx influx (the inwave) of
                       Inl e \<Rightarrow> Inl e
                     | Inr fi \<Rightarrow>
                         (case broadcast2 (*) (as_column fi) K of
                            Inl e \<Rightarrow> Inl e
                          | Inr T \<Rightarrow>
                              (case gp_flux st of
                                 Scalar _ \<Rightarrow> Inl TypeError
                               | Vector f \<Rightarrow> broadcast2 (*) T (as_row f))))
               else Inr K))"

text \<open>
  \<^verbatim>\<open>construct_covariance_test(inwave, influx=influx)\<close> in two steps: the block as it stands
  before the last statement of the method, and the last statement
  \<^verbatim>\<open>Sigma[dinds] += self.construct_diagonal(test=True)\<close>.
\<close>

definition covariance_test_block ::
    "variant \<Rightarrow> gp \<Rightarrow> vec option \<Rightarrow> scalar_or_vec option \<Rightarrow> error + matrix" where
  "covariance_test_block v st inwave influx =
     (case construct_kernel v st inwave inwave of
        Inl e \<Rightarrow> Inl e
      | Inr K \<Rightarrow>
          if flux_nontrivial (gp_flux st)
          then (case assert_influx influx (the inwave) of
                  Inl e \<Rightarrow> Inl e
                | Inr fi \<Rightarrow> scale_outer fi K (the inwave))
          else Inr K)"

definition construct_covariance_test ::
    "variant \<Rightarrow> gp \<Rightarrow> vec option \<Rightarrow> scalar_or_vec option \<Rightarrow> error + matrix" where
  "construct_covariance_test v st inwave influx =
     (case covariance_test_block v st inwave influx of
        Inl e \<Rightarrow> Inl e
      | Inr S \<Rightarrow>
          (case construct_diagonal v st (Some True) of
             Inl e \<Rightarrow> Inl e
           | Inr d \<Rightarrow> add_diag (length (the inwave)) S d))"

subsection \<open>The cache: \<^verbatim>\<open>update_params\<close>, \<^verbatim>\<open>update_data\<close>, \<^verbatim>\<open>compute\<close>\<close>

text \<open>The object as \<^verbatim>\<open>reset()\<close> leaves it; \<^verbatim>\<open>kernel_properties[0]\<close> is 3 in every variant.\<close>

definition reset :: "gp \<Rightarrow> gp" where
  "reset st = st\<lparr>factorized_Sigma := None, gp_wave := None, gp_sigma := None,
                 gp_flux := Scalar 1, gp_params := None, kernel := replicate 3 0,
                 data_clean := False, params_clean := False\<rparr>"

text \<open>
  \<^verbatim>\<open>np.array_equal(params, self._params)\<close>.  The function converts both arguments with
  \<^verbatim>\<open>np.asarray\<close> and returns \<^verbatim>\<open>False\<close> when the conversion fails or the shapes differ.  A
  tuple of three floats converts to an array of three numbers, and \<^verbatim>\<open>None\<close> to an array of
  another shape.  The tuple \<open>(jitter, locs, amps)\<close> of \<open>PhotOutlier\<close> holds a number and two
  arrays and does not convert to an array, so for it the result is \<^verbatim>\<open>False\<close> whatever the
  cached value is.
\<close>

definition array_equal_params :: "params \<Rightarrow> params option \<Rightarrow> bool" where
  "array_equal_params p old =
     (case p of Smooth _ _ _ \<Rightarrow> old = Some p | Outlier _ _ _ \<Rightarrow> False)"

text \<open>
  \<^verbatim>\<open>update_params\<close>.  When \<^verbatim>\<open>kernel_to_params\<close> raises, nothing has been assigned yet.
\<close>

definition update_params :: "variant \<Rightarrow> gp \<Rightarrow> error + gp" where
  "update_params v st =
     (case kernel_to_params v (kernel st) of
        Inl e \<Rightarrow> Inl e
      | Inr p \<Rightarrow>
          Inr (st\<lparr>params_clean := array_equal_params p (gp_params st), gp_params := Some p\<rparr>))"

text \<open>\<^verbatim>\<open>update_data(wave, sigma, flux)\<close>; an argument that is \<^verbatim>\<open>None\<close> is \<open>None\<close>.\<close>

definition update_data ::
    "gp \<Rightarrow> vec option \<Rightarrow> vec option \<Rightarrow> scalar_or_vec option \<Rightarrow> gp" where
  "update_data st wave sigma flux =
     (let c1 = (case wave of None \<Rightarrow> True | Some w \<Rightarrow> gp_wave st = Some w);
          c2 = (case sigma of None \<Rightarrow> True | Some sg \<Rightarrow> gp_sigma st = Some sg);
          c3 = (case flux of None \<Rightarrow> True | Some f \<Rightarrow> gp_flux st = f)
      in st\<lparr>gp_wave := (case wave of None \<Rightarrow> gp_wave st | Some w \<Rightarrow> Some w),
             gp_sigma := (case sigma of None \<Rightarrow> gp_sigma st | Some sg \<Rightarrow> Some sg),
             gp_flux := (case flux of None \<Rightarrow> gp_flux st | Some f \<Rightarrow> f),
             data_clean := (data_clean st \<and> (c1 \<and> c2 \<and> c3))\<rparr>)"

text \<open>
  \<^verbatim>\<open>__init__(wave, sigma, kernel, flux)\<close>.  The keyword \<^verbatim>\<open>flux\<close> defaults to the number 1, so
  a caller that omits it passes \<open>Some (Scalar 1)\<close>.
\<close>

definition init :: "vec option \<Rightarrow> vec option \<Rightarrow> vec option \<Rightarrow> scalar_or_vec option \<Rightarrow> gp" where
  "init wave sigma kern flux =
     update_data
       \<lparr>kernel = (case kern of None \<Rightarrow> replicate 3 0 | Some k \<Rightarrow> k),
        gp_params = None, gp_wave = None, gp_sigma = None, gp_flux = Scalar 1,
        params_clean = False, data_clean = False,
        factorized_Sigma = None, log_det = None, Sigma = None\<rparr>
       wave sigma flux"

text \<open>\<^verbatim>\<open>2 * np.sum(np.log(np.diag(c)))\<close>.\<close>

definition np_log :: "real \<Rightarrow> npfloat" where
  "np_log x = (if 0 < x then Finite (ln x) else NonFinite)"

definition np_add :: "npfloat \<Rightarrow> npfloat \<Rightarrow> npfloat" where
  "np_add a b = (case (a, b) of (Finite x, Finite y) \<Rightarrow> Finite (x + y) | _ \<Rightarrow> NonFinite)"

text \<open>Multiplication of a float by a finite non-zero constant.\<close>

definition np_scale :: "real \<Rightarrow> npfloat \<Rightarrow> npfloat" where
  "np_scale c a = (case a of Finite x \<Rightarrow> Finite (c * x) | NonFinite \<Rightarrow> NonFinite)"

definition np_diag :: "matrix \<Rightarrow> vec" where
  "np_diag c = map (\<lambda>i. c ! i ! i) [0..<min (nrows c) (ncols c)]"

definition log_det_of :: "matrix \<Rightarrow> npfloat" where
  "log_det_of c = np_scale 2 (foldl np_add (Finite 0) (map np_log (np_diag c)))"

text \<open>
  The \<^verbatim>\<open>else\<close> branch of \<^verbatim>\<open>compute\<close>: build, factorize, store, check, mark clean.  The
  factor and the log-determinant are stored before the assertion runs.
\<close>

definition rebuild :: "linalg \<Rightarrow> variant \<Rightarrow> gp \<Rightarrow> error option \<times> gp" where
  "rebuild la v st =
     (case construct_covariance v st of
        Inl e \<Rightarrow> (Some e, st)
      | Inr S \<Rightarrow>
          (case cho_factor la S of
             Inl e \<Rightarrow> (Some e, st)
           | Inr c \<Rightarrow>
               (let st1 = st\<lparr>factorized_Sigma := Some c, log_det := Some (log_det_of c)\<rparr>
                in case log_det_of c of
                     NonFinite \<Rightarrow> (Some AssertionError, st1)
                   | Finite _ \<Rightarrow> (None, st1\<lparr>data_clean := True, params_clean := True\<rparr>))))"

text \<open>
  \<^verbatim>\<open>compute(wave, sigma, flux, force)\<close>.  The result is the exception raised, if any, and
  the object afterwards.
\<close>

definition compute ::
    "linalg \<Rightarrow> variant \<Rightarrow> gp \<Rightarrow> vec option \<Rightarrow> vec option \<Rightarrow> scalar_or_vec option \<Rightarrow> bool
       \<Rightarrow> error option \<times> gp" where
  "compute la v st wave sigma flux force =
     (case update_params v st of
        Inl e \<Rightarrow> (Some e, st)
      | Inr st1 \<Rightarrow>
          (let st2 = update_data st1 wave sigma flux
           in if params_clean st2 \<and> data_clean st2 \<and> \<not> force then (None, st2)
              else rebuild la v st2))"

subsection \<open>\<^verbatim>\<open>lnlikelihood\<close> and \<^verbatim>\<open>predict\<close>\<close>

text \<open>\<^verbatim>\<open>np.dot\<close> on the three combinations of arguments the module uses.\<close>

definition dot_vv :: "vec \<Rightarrow> vec \<Rightarrow> error + real" where
  "dot_vv a b = (if length a = length b then Inr (\<Sum>i\<leftarrow>[0..<length a]. a ! i * b ! i)
                 else Inl ValueError)"

definition dot_mv :: "matrix \<Rightarrow> vec \<Rightarrow> error + vec" where
  "dot_mv A x = (if ncols A = length x
                 then Inr (map (\<lambda>r. \<Sum>i\<leftarrow>[0..<length x]. r ! i * x ! i) A)
                 else Inl ValueError)"

definition dot_mm :: "matrix \<Rightarrow> matrix \<Rightarrow> error + matrix" where
  "dot_mm A B = (if ncols A = nrows B
                 then Inr (map (\<lambda>r. map (\<lambda>j. \<Sum>i\<leftarrow>[0..<nrows B]. r ! i * B ! i ! j) [0..<ncols B]) A)
                 else Inl ValueError)"

text \<open>\<^verbatim>\<open>cho_solve\<close> with a 1-D right-hand side: one column in, one column out.\<close>

definition cho_solve_1d :: "linalg \<Rightarrow> matrix \<Rightarrow> vec \<Rightarrow> error + vec" where
  "cho_solve_1d la c b =
     (case cho_solve la c (as_column b) of Inl e \<Rightarrow> Inl e | Inr X \<Rightarrow> Inr (concat X))"

text \<open>
  \<^verbatim>\<open>lnlikelihood(residual)\<close>.  \<^verbatim>\<open>self.compute()\<close> is the call with every argument at its
  default.
\<close>

definition lnlikelihood :: "linalg \<Rightarrow> variant \<Rightarrow> gp \<Rightarrow> vec \<Rightarrow> (error + npfloat) \<times> gp" where
  "lnlikelihood la v st residual =
     (case gp_sigma st of
        None \<Rightarrow> (Inl TypeError, st)
      | Some sg \<Rightarrow>
          if length residual \<noteq> length sg then (Inl AssertionError, st)
          else
            (case compute la v st None None None False of
               (Some e, st') \<Rightarrow> (Inl e, st')
             | (None, st') \<Rightarrow>
                 (case factorized_Sigma st' of
                    None \<Rightarrow> (Inl TypeError, st')
                  | Some c \<Rightarrow>
                      (case cho_solve_1d la c residual of
                         Inl e \<Rightarrow> (Inl e, st')
                       | Inr x \<Rightarrow>
                           (case dot_vv residual x of
                              Inl e \<Rightarrow> (Inl e, st')
                            | Inr first_term \<Rightarrow>
                                (case log_det st' of
                                   None \<Rightarrow> (Inl AttributeError, st')
                                 | Some ld \<Rightarrow>
                                     (Inr (np_scale (- (1 / 2))
                                            (np_add (np_add (Finite first_term) ld)
                                               (Finite (real (length residual) * ln (2 * pi))))),
                                      st')))))))"

text \<open>
  The last three statements of \<^verbatim>\<open>predict\<close>:
  \<^verbatim>\<open>mu = np.dot(Sigma_cross, cho_solve(self.factorized_Sigma, residual))\<close>,
  \<^verbatim>\<open>cov = Sigma_test - np.dot(Sigma_cross, cho_solve(self.factorized_Sigma, -Sigma_cross.T))\<close>
  and the return.
\<close>

definition posterior ::
    "linalg \<Rightarrow> matrix option \<Rightarrow> vec \<Rightarrow> matrix \<Rightarrow> matrix \<Rightarrow> error + vec \<times> matrix" where
  "posterior la fS residual Sigma_cross Sigma_test =
     (case fS of
        None \<Rightarrow> Inl TypeError
      | Some c \<Rightarrow>
          (case cho_solve_1d la c residual of
             Inl e \<Rightarrow> Inl e
           | Inr x \<Rightarrow>
               (case dot_mv Sigma_cross x of
                  Inl e \<Rightarrow> Inl e
                | Inr mu \<Rightarrow>
                    (case cho_solve la c (map (map uminus) (transpose Sigma_cross)) of
                       Inl e \<Rightarrow> Inl e
                     | Inr Y \<Rightarrow>
                         (case dot_mm Sigma_cross Y of
                            Inl e \<Rightarrow> Inl e
                          | Inr P \<Rightarrow>
                              (case broadcast2 (-) Sigma_test P of
                                 Inl e \<Rightarrow> Inl e
                               | Inr cov \<Rightarrow> Inr (mu, cov)))))))"

text \<open>\<^verbatim>\<open>predict(residual, inwave, influx)\<close>; it assigns nothing.\<close>

definition predict ::
    "linalg \<Rightarrow> variant \<Rightarrow> gp \<Rightarrow> vec \<Rightarrow> vec option \<Rightarrow> scalar_or_vec option
       \<Rightarrow> error + vec \<times> matrix" where
  "predict la v st residual inwave influx =
     (let iw = (if inwave \<noteq> None then inwave else gp_wave st);
          ifl = (if inwave \<noteq> None then influx else Some (gp_flux st))
      in case construct_covariance_cross v st iw ifl of
           Inl e \<Rightarrow> Inl e
         | Inr Sigma_cross \<Rightarrow>
             (case construct_covariance_test v st iw ifl of
                Inl e \<Rightarrow> Inl e
              | Inr Sigma_test \<Rightarrow>
                  posterior la (factorized_Sigma st) residual Sigma_cross Sigma_test))"

subsection \<open>Cholesky factorization and solve in exact arithmetic\<close>

text \<open>
  \<^verbatim>\<open>cho_factor(a)\<close> with the default \<^verbatim>\<open>lower=False\<close>: the upper factor \<open>U\<close> with
  \<open>a = U\<^sup>T U\<close>, computed row by row from the upper triangle of \<open>a\<close>; the entries below the
  diagonal are left as they were.  A pivot that is not positive raises \<^verbatim>\<open>LinAlgError\<close>, a
  matrix that is not square raises \<^verbatim>\<open>ValueError\<close>.
\<close>

fun chol_from :: "matrix \<Rightarrow> matrix \<Rightarrow> nat \<Rightarrow> error + matrix" where
  "chol_from A U 0 = Inr U"
| "chol_from A U (Suc m) =
     (let j = length U;
          d = A ! j ! j - (\<Sum>r\<leftarrow>U. (r ! j)\<^sup>2)
      in if d \<le> 0 then Inl LinAlgError
         else chol_from A
                (U @ [map (\<lambda>i. if i < j then A ! j ! i
                                else if i = j then sqrt d
                                else (A ! j ! i - (\<Sum>r\<leftarrow>U. r ! j * r ! i)) / sqrt d)
                          [0..<length A]])
                m)"

definition cho_factor_exact :: "matrix \<Rightarrow> error + matrix" where
  "cho_factor_exact A =
     (if list_all (\<lambda>r. length r = length A) A then chol_from A [] (length A)
      else Inl ValueError)"

text \<open>Forward substitution with \<open>U\<^sup>T\<close>, then back substitution with \<open>U\<close>.\<close>

fun forward_sub :: "matrix \<Rightarrow> vec \<Rightarrow> vec \<Rightarrow> nat \<Rightarrow> vec" where
  "forward_sub U b ys 0 = ys"
| "forward_sub U b ys (Suc m) =
     (let i = length ys
      in forward_sub U b
           (ys @ [(b ! i - (\<Sum>k\<leftarrow>[0..<i]. U ! k ! i * ys ! k)) / U ! i ! i]) m)"

fun backward_sub :: "matrix \<Rightarrow> vec \<Rightarrow> vec \<Rightarrow> nat \<Rightarrow> vec" where
  "backward_sub U y xs 0 = xs"
| "backward_sub U y xs (Suc m) =
     (let i = length y - Suc (length xs)
      in backward_sub U y
           ((y ! i - (\<Sum>k\<leftarrow>[Suc i..<length y]. U ! i ! k * xs ! (k - Suc i))) / U ! i ! i # xs) m)"

definition cho_solve_exact :: "matrix \<Rightarrow> matrix \<Rightarrow> error + matrix" where
  "cho_solve_exact c B =
     (if nrows B \<noteq> nrows c then Inl ValueError
      else Inr (transpose
                  (map (\<lambda>b. backward_sub c (forward_sub c b [] (length c)) [] (length c))
                       (transpose B))))"

definition exact_linalg :: linalg where
  "exact_linalg = \<lparr>cho_factor = cho_factor_exact, cho_solve = cho_solve_exact\<rparr>"

subsection \<open>Reference values and example objects\<close>

text \<open>
  The closed-form log-density of independent Gaussians with variances \<open>vs\<close>, as the
  specification writes it: the sum over \<open>i\<close> of \<open>-0.5 (r\<^sub>i\<^sup>2 / v\<^sub>i + log (2 \<pi> v\<^sub>i))\<close>.
\<close>

definition independent_gaussian_lnl :: "vec \<Rightarrow> vec \<Rightarrow> real" where
  "independent_gaussian_lnl r vs =
     (\<Sum>i\<leftarrow>[0..<length r]. - (1 / 2) * ((r ! i)\<^sup>2 / vs ! i + ln (2 * pi * vs ! i)))"

text \<open>
  An object built on one data point, \<^verbatim>\<open>wave=[0.]\<close>, \<^verbatim>\<open>sigma=[1.]\<close>, with kernel vector \<open>k\<close> and
  the default flux.
\<close>

definition one_point :: "vec \<Rightarrow> gp" where
  "one_point k = init (Some [0]) (Some [1]) (Some k) (Some (Scalar 1))"

text \<open>
  \<open>one_point [0, 0, 0]\<close> after a rebuild with \<open>exact_linalg\<close>: the parameters are
  \<open>(1, 1, 1)\<close>, the covariance matrix is \<open>[[3]]\<close>.
\<close>

definition one_point_built :: gp where
  "one_point_built =
     (one_point [0, 0, 0])\<lparr>gp_params := Some (Smooth 1 1 1),
                            params_clean := True, data_clean := True,
                            factorized_Sigma := Some [[sqrt 3]],
                            log_det := Some (Finite (2 * ln (sqrt 3)))\<rparr>"

text \<open>The same on two data points, \<^verbatim>\<open>wave=[0., 1.]\<close>, \<^verbatim>\<open>sigma=[1., 1.]\<close>.\<close>

definition two_points :: "vec \<Rightarrow> gp" where
  "two_points k = init (Some [0, 1]) (Some [1, 1]) (Some k) (Some (Scalar 1))"

text \<open>One data point with the flux vector \<^verbatim>\<open>[2.]\<close>.\<close>

definition one_point_flux :: gp where
  "one_point_flux = init (Some [0]) (Some [1]) (Some [0, 0, 0]) (Some (Vector [2]))"

text \<open>
  A factorization routine whose factor has a zero pivot.  It stands for a floating-point
  factor with a pivot whose logarithm is not finite, which exact arithmetic cannot produce.
\<close>

definition zero_pivot_linalg :: linalg where
  "zero_pivot_linalg = \<lparr>cho_factor = (\<lambda>A. Inr [[0]]), cho_solve = cho_solve_exact\<rparr>"

text \<open>A factorization routine that raises on every matrix.\<close>

definition raising_linalg :: linalg where
  "raising_linalg = \<lparr>cho_factor = (\<lambda>A. Inl LinAlgError), cho_solve = cho_solve_exact\<rparr>"

text \<open>
  A \<open>PhotOutlier\<close> object on two data points, \<^verbatim>\<open>sigma=[1., 1.]\<close>, with the kernel vector
  \<open>[2, 1, 1, 0]\<close>: amplitudes \<open>[2, 1]\<close> at the locations \<open>[1, 0]\<close>, no jitter.
\<close>

definition two_outliers :: gp where
  "two_outliers = init None (Some [1, 1]) (Some [2, 1, 1, 0]) (Some (Scalar 1))"

text \<open>
  \<open>two_outliers\<close> after a rebuild with \<open>exact_linalg\<close>: the covariance matrix is
  \<open>[[2, 0], [0, 5]]\<close>.
\<close>

definition two_outliers_built :: gp where
  "two_outliers_built =
     two_outliers\<lparr>gp_params := Some (Outlier 0 [1, 0] [2, 1]),
                   params_clean := True, data_clean := True,
                   factorized_Sigma := Some [[sqrt 2, 0], [0, sqrt 5]],
                   log_det := Some (Finite (2 * (ln (sqrt 2) + ln (sqrt 5))))\<rparr>"

text \<open>
  \<open>one_point [0, 0, 0]\<close> after a \<^verbatim>\<open>compute()\<close> with \<open>zero_pivot_linalg\<close> has raised on the
  assertion.
\<close>

definition one_point_failed :: gp where
  "one_point_failed =
     (one_point [0, 0, 0])\<lparr>gp_params := Some (Smooth 1 1 1),
                            factorized_Sigma := Some [[0]],
                            log_det := Some NonFinite\<rparr>"

section \<open>Properties\<close>

subsection \<open>Evaluation on concrete objects\<close>

lemmas cache_eval =
  init_def one_point_def two_points_def one_point_flux_def two_outliers_def
  update_params_def array_equal_params_def update_data_def compute_def rebuild_def
  kernel_to_params_def

lemmas smooth_eval =
  construct_covariance_def construct_kernel_def construct_diagonal_def flux_nontrivial_def
  add_diag_def nrows_def ncols_def upd_entry_def diag_value_def bidx_def bdim_def

lemmas linalg_eval =
  exact_linalg_def cho_factor_exact_def log_det_of_def np_diag_def np_log_def np_add_def
  np_scale_def

lemmas outlier_eval =
  construct_covariance_def outlier_construct_covariance_def flux_all_one_def np_max_def
  astype_int_def norm_index_def broadcast1_def bdim_def bidx_def add_at_def upd_entry_def
  upt_conv_Cons

subsection \<open>What a successful \<^verbatim>\<open>compute\<close> leaves behind\<close>

lemma update_data_same: "update_data st None None None = st"
  by (simp add: update_data_def)

lemma rebuild_success:
  assumes "rebuild la v st = (None, st')"
  shows "params_clean st' \<and> data_clean st' \<and> kernel st' = kernel st \<and>
         gp_params st' = gp_params st \<and> gp_wave st' = gp_wave st \<and>
         gp_sigma st' = gp_sigma st \<and> gp_flux st' = gp_flux st"
  using assms by (auto simp: rebuild_def Let_def split: sum.splits npfloat.splits)

lemma compute_success:
  assumes "compute la v st wave sigma flux force = (None, st')"
  shows "params_clean st' \<and> data_clean st' \<and> kernel st' = kernel st \<and>
         kernel_to_params v (kernel st) = Inr (the (gp_params st')) \<and> gp_params st' \<noteq> None \<and>
         (\<forall>w. wave = Some w \<longrightarrow> gp_wave st' = Some w) \<and>
         (\<forall>s. sigma = Some s \<longrightarrow> gp_sigma st' = Some s) \<and>
         (\<forall>f. flux = Some f \<longrightarrow> gp_flux st' = f)"
  using assms
  by (auto simp: compute_def update_params_def update_data_def Let_def
           split: sum.splits if_splits dest!: rebuild_success)

lemma compute_success_params:
  assumes "compute la v st wave sigma flux force = (None, st')"
  obtains p where "kernel_to_params v (kernel st') = Inr p" and "gp_params st' = Some p"
    and "params_clean st'" and "data_clean st'"
  using compute_success[OF assms] by auto

lemma smooth_kernel_to_params:
  assumes "v \<noteq> PhotOutlier"
  shows "kernel_to_params v [a, b, c] = Inr (Smooth (exp a) (exp b) (exp c))"
  using assms by (cases v) (simp_all add: kernel_to_params_def)

lemma smooth_params_shape:
  assumes "v \<noteq> PhotOutlier" and "kernel_to_params v k = Inr p"
  shows "\<exists>s a l. p = Smooth s a l"
proof -
  have "(case map exp k of [s, asq, lsq] \<Rightarrow> Inr (Smooth s asq lsq) | _ \<Rightarrow> Inl ValueError) = Inr p"
    using assms by (cases v) (simp_all add: kernel_to_params_def)
  then show ?thesis
    by (simp split: list.splits) blast
qed

lemma update_params_smooth_unchanged:
  assumes "v \<noteq> PhotOutlier"
    and "kernel_to_params v (kernel st) = Inr p" and "gp_params st = Some p"
  shows "update_params v st = Inr (st\<lparr>params_clean := True\<rparr>)"
proof -
  obtain s a l where "p = Smooth s a l"
    using smooth_params_shape[OF assms(1,2)] by blast
  then show ?thesis
    using assms(2,3) by (simp add: update_params_def array_equal_params_def)
qed

lemma update_params_outlier:
  "\<exists>p. update_params PhotOutlier st = Inr (st\<lparr>params_clean := False, gp_params := Some p\<rparr>)"
proof -
  obtain j l a where "kernel_to_params PhotOutlier (kernel st) = Inr (Outlier j l a)"
    by (simp add: kernel_to_params_def Let_def)
  then show ?thesis
    by (intro exI[of _ "Outlier j l a"]) (simp add: update_params_def array_equal_params_def)
qed

text \<open>
  For the smooth kernels a repeat call with the same kernel vector and the same or omitted
  data changes nothing and calls no factorization routine.
\<close>

lemma compute_again_noop:
  assumes "v \<noteq> PhotOutlier"
    and "compute la v st wave sigma flux force = (None, st1)"
    and "wave' = None \<or> wave' = wave"
    and "sigma' = None \<or> sigma' = sigma"
    and "flux' = None \<or> flux' = flux"
  shows "compute la' v st1 wave' sigma' flux' False = (None, st1)"
proof -
  from compute_success_params[OF assms(2)] obtain p where
    p: "kernel_to_params v (kernel st1) = Inr p" "gp_params st1 = Some p"
    and c: "params_clean st1" "data_clean st1"
    by blast
  from compute_success[OF assms(2)] have
    w: "\<And>w. wave = Some w \<Longrightarrow> gp_wave st1 = Some w" and
    s: "\<And>s. sigma = Some s \<Longrightarrow> gp_sigma st1 = Some s" and
    f: "\<And>f. flux = Some f \<Longrightarrow> gp_flux st1 = f"
    by auto
  have u: "update_params v st1 = Inr st1"
    using update_params_smooth_unchanged[OF assms(1) p] c by simp
  have d: "update_data st1 wave' sigma' flux' = st1"
    using assms(3-5) w s f c by (auto simp: update_data_def split: option.splits)
  show ?thesis using u d c by (simp add: compute_def)
qed

text \<open>
  In every variant a call that finds the parameters of the kernel vector different from the
  cached ones, or is passed a wavelength or uncertainty array different from the cached one,
  is one run of \<open>rebuild\<close>.
\<close>

lemma compute_params_change_rebuilds:
  assumes "kernel_to_params v (kernel st) = Inr p" and "gp_params st \<noteq> Some p"
  shows "\<exists>st1. update_params v st = Inr st1 \<and> \<not> params_clean st1 \<and>
               compute la v st wave sigma flux force
                 = rebuild la v (update_data st1 wave sigma flux)"
proof -
  have "\<not> array_equal_params p (gp_params st)"
    using assms(2) by (auto simp: array_equal_params_def split: params.splits)
  then show ?thesis
    using assms(1) by (simp add: update_params_def compute_def update_data_def Let_def)
qed

lemma compute_wave_change_rebuilds:
  assumes "update_params v st = Inr st1"
    and "gp_wave st = Some w" and "i < length w" and "x \<noteq> w ! i"
  shows "\<not> data_clean (update_data st1 (Some (w[i := x])) sigma flux) \<and>
         compute la v st (Some (w[i := x])) sigma flux force
           = rebuild la v (update_data st1 (Some (w[i := x])) sigma flux)"
proof -
  have "w[i := x] \<noteq> w" using assms(3,4) by (metis nth_list_update_eq)
  moreover have "gp_wave st1 = Some w"
    using assms(1,2) by (auto simp: update_params_def split: sum.splits)
  ultimately have "\<not> data_clean (update_data st1 (Some (w[i := x])) sigma flux)"
    by (simp add: update_data_def)
  then show ?thesis
    using assms(1) by (simp add: compute_def Let_def)
qed

lemma compute_sigma_change_rebuilds:
  assumes "update_params v st = Inr st1"
    and "gp_sigma st = Some sg" and "i < length sg" and "x \<noteq> sg ! i"
  shows "\<not> data_clean (update_data st1 wave (Some (sg[i := x])) flux) \<and>
         compute la v st wave (Some (sg[i := x])) flux force
           = rebuild la v (update_data st1 wave (Some (sg[i := x])) flux)"
proof -
  have "sg[i := x] \<noteq> sg" using assms(3,4) by (metis nth_list_update_eq)
  moreover have "gp_sigma st1 = Some sg"
    using assms(1,2) by (auto simp: update_params_def split: sum.splits)
  ultimately have "\<not> data_clean (update_data st1 wave (Some (sg[i := x])) flux)"
    by (simp add: update_data_def)
  then show ?thesis
    using assms(1) by (simp add: compute_def Let_def)
qed

lemma one_point_compute:
  "compute exact_linalg ExpSquared (one_point [0, 0, 0]) None None None False
     = (None, one_point_built)"
  by (simp add: one_point_built_def cache_eval smooth_eval linalg_eval)

subsection \<open>\<^verbatim>\<open>compute\<close> on \<open>PhotOutlier\<close> factorizes on every call\<close>

lemma photoutlier_always_rebuilds:
  "\<exists>st1. update_params PhotOutlier st = Inr st1 \<and> \<not> params_clean st1 \<and>
         compute la PhotOutlier st wave sigma flux force
           = rebuild la PhotOutlier (update_data st1 wave sigma flux)"
proof -
  obtain p where u:
    "update_params PhotOutlier st = Inr (st\<lparr>params_clean := False, gp_params := Some p\<rparr>)"
    using update_params_outlier by blast
  then show ?thesis
    by (simp add: compute_def update_data_def Let_def)
qed

lemma two_outliers_params:
  "update_params PhotOutlier two_outliers
     = Inr (two_outliers\<lparr>gp_params := Some (Outlier 0 [1, 0] [2, 1])\<rparr>)"
  "update_params PhotOutlier two_outliers_built = Inr (two_outliers_built\<lparr>params_clean := False\<rparr>)"
  by (simp_all add: two_outliers_built_def cache_eval)

lemma two_outliers_cov:
  "construct_covariance PhotOutlier (two_outliers\<lparr>gp_params := Some (Outlier 0 [1, 0] [2, 1])\<rparr>)
     = Inr [[2, 0], [0, 5]]"
  "construct_covariance PhotOutlier two_outliers_built = Inr [[2, 0], [0, 5]]"
  "construct_covariance PhotOutlier (two_outliers_built\<lparr>params_clean := False\<rparr>)
     = Inr [[2, 0], [0, 5]]"
  by (simp_all add: two_outliers_built_def init_def two_outliers_def update_data_def outlier_eval
               del: upt_Suc)

lemma two_outliers_factor:
  "cho_factor_exact [[2, 0], [0, 5]] = Inr [[sqrt 2, 0], [0, sqrt 5]]"
  by (simp add: cho_factor_exact_def upt_conv_Cons numeral_2_eq_2 del: upt_Suc)

lemma two_outliers_log_det:
  "log_det_of [[sqrt 2, 0], [0, sqrt 5]] = Finite (2 * (ln (sqrt 2) + ln (sqrt 5)))"
  by (simp add: log_det_of_def np_diag_def np_log_def np_add_def np_scale_def nrows_def ncols_def
        upt_conv_Cons del: upt_Suc)

lemma rebuild_finite:
  assumes "construct_covariance v st = Inr S" and "cho_factor la S = Inr c"
    and "log_det_of c = Finite ld"
  shows "rebuild la v st
           = (None, st\<lparr>factorized_Sigma := Some c, log_det := Some (Finite ld),
                         data_clean := True, params_clean := True\<rparr>)"
  using assms by (simp add: rebuild_def)

lemma rebuild_factor_raises:
  assumes "construct_covariance v st = Inr S" and "cho_factor la S = Inl e"
  shows "rebuild la v st = (Some e, st)"
  using assms by (simp add: rebuild_def)

lemma two_outliers_rebuild:
  "rebuild exact_linalg PhotOutlier (two_outliers\<lparr>gp_params := Some (Outlier 0 [1, 0] [2, 1])\<rparr>)
     = (None, two_outliers_built)"
  "rebuild exact_linalg PhotOutlier (two_outliers_built\<lparr>params_clean := False\<rparr>)
     = (None, two_outliers_built)"
  "rebuild raising_linalg PhotOutlier (two_outliers_built\<lparr>params_clean := False\<rparr>)
     = (Some LinAlgError, two_outliers_built\<lparr>params_clean := False\<rparr>)"
proof -
  have ex: "cho_factor exact_linalg [[2, 0], [0, 5]] = Inr [[sqrt 2, 0], [0, sqrt 5]]"
    by (simp add: exact_linalg_def two_outliers_factor)
  have ra: "cho_factor raising_linalg [[2, 0], [0, 5]] = Inl LinAlgError"
    by (simp add: raising_linalg_def)
  show "rebuild exact_linalg PhotOutlier
          (two_outliers\<lparr>gp_params := Some (Outlier 0 [1, 0] [2, 1])\<rparr>) = (None, two_outliers_built)"
    using rebuild_finite[OF two_outliers_cov(1) ex two_outliers_log_det]
    by (simp add: two_outliers_built_def)
  show "rebuild exact_linalg PhotOutlier (two_outliers_built\<lparr>params_clean := False\<rparr>)
          = (None, two_outliers_built)"
    using rebuild_finite[OF two_outliers_cov(3) ex two_outliers_log_det]
    by (simp add: two_outliers_built_def)
  show "rebuild raising_linalg PhotOutlier (two_outliers_built\<lparr>params_clean := False\<rparr>)
          = (Some LinAlgError, two_outliers_built\<lparr>params_clean := False\<rparr>)"
    by (rule rebuild_factor_raises[OF two_outliers_cov(3) ra])
qed

lemma two_outliers_compute:
  "compute exact_linalg PhotOutlier two_outliers None None None False = (None, two_outliers_built)"
  "compute la PhotOutlier two_outliers_built None None None False
     = rebuild la PhotOutlier (two_outliers_built\<lparr>params_clean := False\<rparr>)"
proof -
  have "\<not> data_clean two_outliers"
    by (simp add: two_outliers_def init_def update_data_def)
  then show "compute exact_linalg PhotOutlier two_outliers None None None False
               = (None, two_outliers_built)"
    by (simp add: compute_def two_outliers_params(1) update_data_same two_outliers_rebuild(1))
  show "compute la PhotOutlier two_outliers_built None None None False
          = rebuild la PhotOutlier (two_outliers_built\<lparr>params_clean := False\<rparr>)"
    by (simp add: compute_def two_outliers_params(2) update_data_same)
qed

text \<open>
  Claim C4 says that after a successful \<^verbatim>\<open>compute\<close> a second call with the same kernel vector,
  the same or omitted data and \<^verbatim>\<open>force=False\<close> performs no factorization, and that a changed
  kernel scalar or data element causes exactly one rebuild.  For \<open>PhotOutlier\<close> the first
  half fails.  On \<open>two_outliers\<close> the first \<^verbatim>\<open>compute()\<close> succeeds and leaves both flags true.
  The second \<^verbatim>\<open>compute()\<close>, with nothing changed, is a run of \<open>rebuild\<close> whatever the
  factorization routine is: \<^verbatim>\<open>update_params\<close> compares the parameter tuple with
  \<^verbatim>\<open>np.array_equal\<close>, which is false on it, and sets \<open>params_clean\<close> to false.  With the
  exact routine the same factor is computed again; with a routine that raises, the call
  raises.  The same repeat call on the squared-exponential object \<open>one_point_built\<close> returns
  without calling the routine.
\<close>

theorem photoutlier_recomputes:
  "compute exact_linalg PhotOutlier two_outliers None None None False = (None, two_outliers_built) \<and>
   params_clean two_outliers_built \<and> data_clean two_outliers_built \<and>
   construct_covariance PhotOutlier two_outliers_built = Inr [[2, 0], [0, 5]] \<and>
   (\<forall>la. compute la PhotOutlier two_outliers_built None None None False
           = rebuild la PhotOutlier (two_outliers_built\<lparr>params_clean := False\<rparr>)) \<and>
   compute exact_linalg PhotOutlier two_outliers_built None None None False
     = (None, two_outliers_built) \<and>
   compute raising_linalg PhotOutlier two_outliers_built None None None False
     = (Some LinAlgError, two_outliers_built\<lparr>params_clean := False\<rparr>) \<and>
   compute raising_linalg ExpSquared one_point_built None None None False = (None, one_point_built)"
proof -
  have f: "params_clean two_outliers_built" "data_clean two_outliers_built"
    by (simp_all add: two_outliers_built_def)
  have e: "compute raising_linalg ExpSquared one_point_built None None None False
             = (None, one_point_built)"
    by (rule compute_again_noop[OF _ one_point_compute]) simp_all
  show ?thesis
    using two_outliers_compute two_outliers_rebuild two_outliers_cov(2) f e by simp
qed

subsection \<open>The outlier kernel on five points\<close>

text \<open>
  Claim C8.  For the kernel vector \<open>[2.0, 3]\<close> the parameters are amplitudes \<open>[2.0]\<close>,
  locations \<open>[3]\<close> and jitter 0, and on five uncertainties equal to 1 with the default flux 1
  \<^verbatim>\<open>PhotOutlier.construct_covariance\<close> returns the \<open>5 \<times> 5\<close> matrix with diagonal
  \<open>[1, 1, 1, 5, 1]\<close> and zeros elsewhere.
\<close>

theorem photoutlier_concrete_covariance:
  "kernel_to_params PhotOutlier [2, 3] = Inr (Outlier 0 [3] [2]) \<and>
   (\<exists>st. update_params PhotOutlier
            (init None (Some [1, 1, 1, 1, 1]) (Some [2, 3]) (Some (Scalar 1))) = Inr st \<and>
         construct_covariance PhotOutlier st =
           Inr [[1, 0, 0, 0, 0],
                [0, 1, 0, 0, 0],
                [0, 0, 1, 0, 0],
                [0, 0, 0, 5, 0],
                [0, 0, 0, 0, 1]])"
  by (simp add: init_def update_params_def update_data_def kernel_to_params_def outlier_eval
           del: upt_Suc)

subsection \<open>A stale factorization on the cheap path\<close>

lemma exp_one_gt_one: "(1::real) < exp 1"
  by simp

lemma stale_step1:
  "update_params ExpSquared (one_point_built\<lparr>kernel := [1, 0, 0]\<rparr>)
     = Inr (one_point_built\<lparr>kernel := [1, 0, 0], gp_params := Some (Smooth (exp 1) 1 1),
                             params_clean := False\<rparr>)"
  by (simp add: one_point_built_def cache_eval)

lemma stale_step2:
  "compute la ExpSquared
     (one_point_built\<lparr>kernel := [1, 0, 0], gp_params := Some (Smooth (exp 1) 1 1),
                      params_clean := False\<rparr>) None None None False
     = (None, one_point_built\<lparr>kernel := [1, 0, 0], gp_params := Some (Smooth (exp 1) 1 1)\<rparr>)"
  by (simp add: one_point_built_def cache_eval)

lemma stale_cov:
  "construct_covariance ExpSquared
     (one_point_built\<lparr>kernel := [1, 0, 0], gp_params := Some (Smooth (exp 1) 1 1)\<rparr>)
     = Inr [[2 + (exp 1)\<^sup>2]]"
  by (simp add: one_point_built_def cache_eval smooth_eval)

text \<open>\<^verbatim>\<open>update_data\<close> never raises its flag.\<close>

lemma update_data_only_downgrades:
  "data_clean (update_data st wave sigma flux) \<Longrightarrow> data_clean st"
  by (simp add: update_data_def)

text \<open>
  Claim C1 says that \<^verbatim>\<open>compute\<close> takes the cheap path only when the cached factor was built
  from the parameters of the current kernel vector, and that a flag goes from false to true
  only inside a successful rebuild.  The calls evaluated here are: \<^verbatim>\<open>compute()\<close> on one data
  point with the kernel vector \<open>[0, 0, 0]\<close>, which factorizes the covariance \<open>[[3]]\<close>; the
  assignment \<^verbatim>\<open>kernel = [1, 0, 0]\<close>; \<^verbatim>\<open>update_params()\<close>, which sets \<open>params_clean\<close> to false;
  and \<^verbatim>\<open>compute()\<close> again.  The \<^verbatim>\<open>update_params\<close> inside the second \<^verbatim>\<open>compute\<close> compares the
  new parameters with the ones the first \<^verbatim>\<open>update_params\<close> stored, sets \<open>params_clean\<close> back
  to true, and the call returns on the cheap path: the cached factor is still \<open>[[sqrt 3]]\<close>,
  while the covariance of the current parameters is \<open>[[2 + (exp 1)\<^sup>2]]\<close>.
\<close>

theorem stale_factorization_served:
  "\<exists>st1 st2 st3.
     compute exact_linalg ExpSquared (one_point [0, 0, 0]) None None None False = (None, st1) \<and>
     factorized_Sigma st1 = Some [[sqrt 3]] \<and>
     construct_covariance ExpSquared st1 = Inr [[3]] \<and>
     update_params ExpSquared (st1\<lparr>kernel := [1, 0, 0]\<rparr>) = Inr st2 \<and>
     \<not> params_clean st2 \<and>
     compute exact_linalg ExpSquared st2 None None None False = (None, st3) \<and>
     params_clean st3 \<and> data_clean st3 \<and>
     kernel_to_params ExpSquared (kernel st3) = Inr (Smooth (exp 1) 1 1) \<and>
     factorized_Sigma st3 = Some [[sqrt 3]] \<and>
     construct_covariance ExpSquared st3 = Inr [[2 + (exp 1)\<^sup>2]] \<and>
     2 + (exp 1)\<^sup>2 \<noteq> (3::real)"
proof -
  have ne: "2 + (exp 1)\<^sup>2 \<noteq> (3::real)"
  proof -
    have "(1::real) < (exp 1)\<^sup>2" using one_less_power[OF exp_one_gt_one, of 2] by simp
    then show ?thesis by linarith
  qed
  have c3: "construct_covariance ExpSquared one_point_built = Inr [[3]]"
    by (simp add: one_point_built_def cache_eval smooth_eval)
  have f: "factorized_Sigma one_point_built = Some [[sqrt 3]]"
    "params_clean (one_point_built\<lparr>kernel := [1, 0, 0], gp_params := Some (Smooth (exp 1) 1 1)\<rparr>)"
    "data_clean (one_point_built\<lparr>kernel := [1, 0, 0], gp_params := Some (Smooth (exp 1) 1 1)\<rparr>)"
    by (simp_all add: one_point_built_def)
  have k: "kernel_to_params ExpSquared [1, 0, 0] = Inr (Smooth (exp 1) 1 1)"
    by (simp add: kernel_to_params_def)
  show ?thesis
    apply (rule exI[of _ one_point_built])
    apply (rule exI[of _ "one_point_built\<lparr>kernel := [1, 0, 0], gp_params := Some (Smooth (exp 1) 1 1),
                             params_clean := False\<rparr>"])
    apply (rule exI[of _ "one_point_built\<lparr>kernel := [1, 0, 0], gp_params := Some (Smooth (exp 1) 1 1)\<rparr>"])
    using one_point_compute stale_step1 stale_step2 stale_cov ne c3 f k
    by simp
qed

subsection \<open>A rebuild with a non-finite log-determinant\<close>

text \<open>
  In exact arithmetic a factor that \<open>cho_factor_exact\<close> returns has positive pivots, so its
  log-determinant is finite: the assertion of \<^verbatim>\<open>compute\<close> can only fail on floating-point
  values.
\<close>

lemma chol_from_result:
  assumes "chol_from A U m = Inr c" and "length U + m \<le> length A"
  shows "length c = length U + m \<and> take (length U) c = U \<and>
         (\<forall>j. length U \<le> j \<and> j < length c \<longrightarrow> 0 < c ! j ! j \<and> length (c ! j) = length A)"
  using assms
proof (induction m arbitrary: U)
  case 0
  then show ?case by simp
next
  case (Suc m)
  let ?j = "length U"
  let ?d = "A ! ?j ! ?j - (\<Sum>r\<leftarrow>U. (r ! ?j)\<^sup>2)"
  let ?row = "map (\<lambda>i. if i < ?j then A ! ?j ! i
                         else if i = ?j then sqrt ?d
                         else (A ! ?j ! i - (\<Sum>r\<leftarrow>U. r ! ?j * r ! i)) / sqrt ?d)
                  [0..<length A]"
  from Suc.prems(1) have d: "0 < ?d"
    by (auto simp: Let_def split: if_splits)
  from Suc.prems(1) d have rec: "chol_from A (U @ [?row]) m = Inr c"
    by (simp add: Let_def)
  have len: "length (U @ [?row]) + m \<le> length A"
    using Suc.prems(2) by simp
  note ih = Suc.IH[OF rec len]
  have jA: "?j < length A" using Suc.prems(2) by simp
  have tk: "take (Suc ?j) c = U @ [?row]"
    using ih by simp
  have jc: "?j < length c" using ih by simp
  have cj: "c ! ?j = ?row"
  proof -
    have "c ! ?j = take (Suc ?j) c ! ?j" by simp
    also have "\<dots> = ?row" by (simp only: tk nth_append_length)
    finally show ?thesis .
  qed
  have tkU: "take ?j c = U"
  proof -
    have "take ?j c = take ?j (take (Suc ?j) c)" by (simp add: min_def)
    also have "\<dots> = U" by (simp only: tk) simp
    finally show ?thesis .
  qed
  have rowj: "?row ! ?j = sqrt ?d" using jA by simp
  show ?case
  proof (intro conjI allI impI)
    show "length c = length U + Suc m" using ih by simp
    show "take (length U) c = U" by (rule tkU)
  next
    fix j assume j: "length U \<le> j \<and> j < length c"
    show "0 < c ! j ! j"
    proof (cases "j = ?j")
      case True
      then show ?thesis using cj rowj d by simp
    next
      case False
      then have "length (U @ [?row]) \<le> j \<and> j < length c" using j by simp
      then show ?thesis using ih by blast
    qed
    show "length (c ! j) = length A"
    proof (cases "j = ?j")
      case True
      then show ?thesis using cj by simp
    next
      case False
      then have "length (U @ [?row]) \<le> j \<and> j < length c" using j by simp
      then show ?thesis using ih by blast
    qed
  qed
qed

lemma sum_logs_finite:
  assumes "\<forall>x\<in>set xs. 0 < x"
  shows "\<exists>r. foldl np_add (Finite a) (map np_log xs) = Finite r"
  using assms
  by (induction xs arbitrary: a) (simp_all add: np_add_def np_log_def)

lemma exact_cholesky_log_det_finite:
  assumes "cho_factor_exact A = Inr c"
  shows "\<exists>r. log_det_of c = Finite r"
proof -
  from assms have ch: "chol_from A [] (length A) = Inr c"
    by (simp add: cho_factor_exact_def split: if_splits)
  from chol_from_result[OF ch] have
    len: "length c = length A" and
    diag: "\<And>j. j < length c \<Longrightarrow> 0 < c ! j ! j \<and> length (c ! j) = length A"
    by auto
  have "\<forall>x\<in>set (np_diag c). 0 < x"
    using diag by (auto simp: np_diag_def nrows_def)
  from sum_logs_finite[OF this, of 0] obtain r where
    "foldl np_add (Finite 0) (map np_log (np_diag c)) = Finite r" by blast
  then show ?thesis by (simp add: log_det_of_def np_scale_def)
qed

lemma rebuild_nonfinite:
  assumes "construct_covariance v st = Inr S" and "cho_factor la S = Inr c"
    and "log_det_of c = NonFinite"
  shows "rebuild la v st
           = (Some AssertionError, st\<lparr>factorized_Sigma := Some c, log_det := Some NonFinite\<rparr>)"
  using assms by (simp add: rebuild_def)

text \<open>
  Claim C9 says that a rebuild whose log-determinant is not finite raises, and that neither
  flag is set to true by that call.  What holds is this.  Let the kernel be one of the two
  smooth ones and the cached parameters those of the current kernel vector, let \<open>params_clean\<close> be false before the call, and let
  the call reach the rebuild with a factor whose log-determinant is not finite.  Then
  \<^verbatim>\<open>compute\<close> raises \<^verbatim>\<open>AssertionError\<close> with the factor and the log-determinant stored, and
  \<open>data_clean\<close> is what \<^verbatim>\<open>update_data\<close> left; but \<open>params_clean\<close> is true after the call,
  set by the \<^verbatim>\<open>update_params\<close> at its start.
\<close>

theorem failed_rebuild_marks_params_clean:
  assumes "v \<noteq> PhotOutlier"
    and "update_params v st = Inr st1"
    and "gp_params st1 = gp_params st"
    and "\<not> params_clean st"
    and "\<not> data_clean (update_data st1 wave sigma flux) \<or> force"
    and "construct_covariance v (update_data st1 wave sigma flux) = Inr S"
    and "cho_factor la S = Inr c"
    and "log_det_of c = NonFinite"
  shows "\<exists>st'. compute la v st wave sigma flux force = (Some AssertionError, st') \<and>
               params_clean st' \<and>
               (data_clean st' \<longleftrightarrow> data_clean (update_data st1 wave sigma flux)) \<and>
               factorized_Sigma st' = Some c \<and> log_det st' = Some NonFinite"
proof -
  let ?st2 = "update_data st1 wave sigma flux"
  obtain p where p: "kernel_to_params v (kernel st) = Inr p" "gp_params st1 = Some p"
    using assms(2) by (auto simp: update_params_def split: sum.splits)
  then have "update_params v st = Inr (st\<lparr>params_clean := True\<rparr>)"
    using update_params_smooth_unchanged[OF assms(1), of st p] assms(3) by simp
  then have pc: "params_clean st1"
    using assms(2) by auto
  then have pc2: "params_clean ?st2"
    by (simp add: update_data_def)
  have "compute la v st wave sigma flux force = rebuild la v ?st2"
    using assms(2,5) by (auto simp: compute_def Let_def)
  then have "compute la v st wave sigma flux force
               = (Some AssertionError, ?st2\<lparr>factorized_Sigma := Some c, log_det := Some NonFinite\<rparr>)"
    using rebuild_nonfinite[OF assms(6,7,8)] by simp
  then show ?thesis using pc2 by simp
qed

text \<open>
  The theorem at an object whose first \<^verbatim>\<open>compute()\<close> has already failed on the assertion:
  the second \<^verbatim>\<open>compute()\<close> fails in the same way and leaves \<open>params_clean\<close> true.
\<close>

lemma one_point_first_failure:
  "compute zero_pivot_linalg ExpSquared (one_point [0, 0, 0]) None None None False
     = (Some AssertionError, one_point_failed)"
  by (simp add: one_point_failed_def zero_pivot_linalg_def cache_eval smooth_eval
        log_det_of_def np_diag_def np_log_def np_add_def np_scale_def)

theorem failed_rebuild_marks_params_clean_witness:
  "compute zero_pivot_linalg ExpSquared (one_point [0, 0, 0]) None None None False
     = (Some AssertionError, one_point_failed) \<and>
   \<not> params_clean one_point_failed \<and>
   (\<exists>st'. compute zero_pivot_linalg ExpSquared one_point_failed None None None False
            = (Some AssertionError, st') \<and>
          params_clean st' \<and> \<not> data_clean st' \<and>
          factorized_Sigma st' = Some [[0]] \<and> log_det st' = Some NonFinite)"
proof -
  let ?st1 = "one_point_failed\<lparr>params_clean := True\<rparr>"
  have h0: "ExpSquared \<noteq> PhotOutlier"
    by simp
  have h1: "update_params ExpSquared one_point_failed = Inr ?st1"
    by (simp add: one_point_failed_def cache_eval)
  have h2: "gp_params ?st1 = gp_params one_point_failed"
    by simp
  have h3: "\<not> params_clean one_point_failed"
    by (simp add: one_point_failed_def cache_eval)
  have h4: "\<not> data_clean (update_data ?st1 None None None) \<or> False"
    by (simp add: one_point_failed_def cache_eval)
  have h5: "construct_covariance ExpSquared (update_data ?st1 None None None) = Inr [[3]]"
    by (simp add: one_point_failed_def cache_eval smooth_eval)
  have h6: "cho_factor zero_pivot_linalg [[3]] = Inr [[0]]"
    by (simp add: zero_pivot_linalg_def)
  have h7: "log_det_of [[0]] = NonFinite"
    by (simp add: log_det_of_def np_diag_def np_log_def np_add_def np_scale_def nrows_def ncols_def)
  show ?thesis
    using failed_rebuild_marks_params_clean[OF h0 h1 h2 h3 h4 h5 h6 h7] h3 h4 one_point_first_failure
    by simp
qed

subsection \<open>The value of \<^verbatim>\<open>lnlikelihood\<close>\<close>

lemmas solve_eval =
  cho_solve_1d_def exact_linalg_def cho_solve_exact_def as_column_def nrows_def ncols_def

lemma compute_clean_noop:
  assumes "v \<noteq> PhotOutlier"
    and "params_clean st" and "data_clean st"
    and "kernel_to_params v (kernel st) = Inr p" and "gp_params st = Some p"
  shows "compute la v st None None None False = (None, st)"
  using update_params_smooth_unchanged[OF assms(1,4,5)] assms(2,3)
  by (simp add: compute_def update_data_same)

text \<open>
  When a flag is false after the two updates, \<^verbatim>\<open>lnlikelihood\<close> builds the covariance matrix
  \<open>S\<close> of the current parameters and data, factorizes it, and returns
  \<open>-0.5 (r \<cdot> x + log_det + N log (2 \<pi>))\<close> for the solve \<open>x\<close> of \<open>r\<close> against the new factor;
  the object keeps the new factor and both flags are true.
\<close>

lemma lnlikelihood_rebuilds:
  assumes "gp_sigma st = Some sg" and "length residual = length sg"
    and "update_params v st = Inr st1"
    and "\<not> (params_clean st1 \<and> data_clean st1)"
    and "construct_covariance v st1 = Inr S"
    and "cho_factor la S = Inr c" and "log_det_of c = Finite ld"
    and "cho_solve_1d la c residual = Inr x" and "length x = length residual"
  shows "lnlikelihood la v st residual
           = (Inr (Finite (- (1 / 2) * ((\<Sum>i\<leftarrow>[0..<length residual]. residual ! i * x ! i) + ld
                                        + real (length residual) * ln (2 * pi)))),
              st1\<lparr>factorized_Sigma := Some c, log_det := Some (Finite ld),
                  data_clean := True, params_clean := True\<rparr>)"
proof -
  have "compute la v st None None None False = rebuild la v st1"
    using assms(3,4) by (auto simp: compute_def update_data_same)
  also have "\<dots> = (None, st1\<lparr>factorized_Sigma := Some c, log_det := Some (Finite ld),
                                data_clean := True, params_clean := True\<rparr>)"
    by (rule rebuild_finite[OF assms(5,6,7)])
  finally show ?thesis
    using assms(1,2,8,9) by (simp add: lnlikelihood_def dot_vv_def np_add_def np_scale_def)
qed

text \<open>
  When both flags are true after the two updates, no factorization runs and the value is
  computed from the cached factor and the cached log-determinant.
\<close>

lemma lnlikelihood_from_cache:
  assumes "gp_sigma st = Some sg" and "length residual = length sg"
    and "update_params v st = Inr st1"
    and "params_clean st1" and "data_clean st1"
    and "factorized_Sigma st = Some c" and "log_det st = Some (Finite ld)"
    and "cho_solve_1d la c residual = Inr x" and "length x = length residual"
  shows "lnlikelihood la v st residual
           = (Inr (Finite (- (1 / 2) * ((\<Sum>i\<leftarrow>[0..<length residual]. residual ! i * x ! i) + ld
                                        + real (length residual) * ln (2 * pi)))), st1)"
proof -
  have "compute la v st None None None False = (None, st1)"
    using assms(3,4,5) by (simp add: compute_def update_data_same)
  moreover have "factorized_Sigma st1 = Some c" "log_det st1 = Some (Finite ld)"
    using assms(3,6,7) by (auto simp: update_params_def split: sum.splits)
  ultimately show ?thesis
    using assms(1,2,8,9) by (simp add: lnlikelihood_def dot_vv_def np_add_def np_scale_def)
qed

text \<open>
  On a new object with one data point the first \<^verbatim>\<open>lnlikelihood\<close> factorizes \<open>[[3]]\<close> and returns
  the log-density of the residual under the variance 3; on the object that results, the
  second one returns the same value without a factorization.
\<close>

lemma one_point_solve:
  "length [r / 3] = length [r]"
  "cho_solve_1d exact_linalg [[sqrt 3]] [r] = Inr [r / 3]"
  "cho_solve_1d raising_linalg [[sqrt 3]] [r] = Inr [r / 3]"
  by (simp_all add: solve_eval raising_linalg_def)

lemma one_point_lnlikelihood:
  "lnlikelihood exact_linalg ExpSquared (one_point [0, 0, 0]) [r]
     = (Inr (Finite (- (1 / 2) * (r * (r / 3) + 2 * ln (sqrt 3) + ln (2 * pi)))), one_point_built)"
proof -
  let ?st1 = "(one_point [0, 0, 0])\<lparr>gp_params := Some (Smooth 1 1 1)\<rparr>"
  have h1: "gp_sigma (one_point [0, 0, 0]) = Some [1]"
    by (simp add: cache_eval)
  have h2: "length [r] = length [1::real]"
    by simp
  have h3: "update_params ExpSquared (one_point [0, 0, 0]) = Inr ?st1"
    by (simp add: cache_eval)
  have h4: "\<not> (params_clean ?st1 \<and> data_clean ?st1)"
    by (simp add: cache_eval)
  have h5: "construct_covariance ExpSquared ?st1 = Inr [[3]]"
    by (simp add: cache_eval smooth_eval)
  have h6: "cho_factor exact_linalg [[3]] = Inr [[sqrt 3]]"
    by (simp add: exact_linalg_def cho_factor_exact_def)
  have h7: "log_det_of [[sqrt 3]] = Finite (2 * ln (sqrt 3))"
    by (simp add: log_det_of_def np_diag_def np_log_def np_add_def np_scale_def nrows_def ncols_def)
  have e: "?st1\<lparr>factorized_Sigma := Some [[sqrt 3]], log_det := Some (Finite (2 * ln (sqrt 3))),
                  data_clean := True, params_clean := True\<rparr> = one_point_built"
    by (simp add: one_point_built_def)
  show ?thesis
    using lnlikelihood_rebuilds[OF h1 h2 h3 h4 h5 h6 h7 one_point_solve(2)] e
    by simp
qed

lemma one_point_built_lnlikelihood:
  "lnlikelihood raising_linalg ExpSquared one_point_built [r]
     = (Inr (Finite (- (1 / 2) * (r * (r / 3) + 2 * ln (sqrt 3) + ln (2 * pi)))), one_point_built)"
proof -
  have h1: "gp_sigma one_point_built = Some [1]"
    by (simp add: one_point_built_def cache_eval)
  have h2: "length [r] = length [1::real]"
    by simp
  have h3: "update_params ExpSquared one_point_built = Inr one_point_built"
    by (simp add: one_point_built_def cache_eval)
  have h4: "params_clean one_point_built" "data_clean one_point_built"
    by (simp_all add: one_point_built_def)
  have h6: "factorized_Sigma one_point_built = Some [[sqrt 3]]"
    "log_det one_point_built = Some (Finite (2 * ln (sqrt 3)))"
    by (simp_all add: one_point_built_def)
  show ?thesis
    using lnlikelihood_from_cache[OF h1 h2 h3 h4 h6 one_point_solve(3)]
    by simp
qed

lemma two_outliers_solve:
  "cho_solve_1d exact_linalg [[sqrt 2, 0], [0, sqrt 5]] [1, 1] = Inr [1 / 2, 1 / 5]"
  by (simp add: solve_eval upt_conv_Cons numeral_2_eq_2 del: upt_Suc)

text \<open>
  Claim C7 says that \<^verbatim>\<open>lnlikelihood\<close> first calls \<^verbatim>\<open>compute()\<close>, a no-op when the cache is
  clean, and then returns \<open>-0.5 (r \<cdot> \<Sigma>\<^sup>-\<^sup>1 r + log_det + N log (2 \<pi>))\<close> from the cached factor.
  The value is as claimed.  The \<^verbatim>\<open>compute()\<close> is not a no-op on a clean \<open>PhotOutlier\<close> object:
  on \<open>two_outliers_built\<close>, where both flags are true and nothing has changed,
  \<^verbatim>\<open>lnlikelihood([1, 1])\<close> factorizes \<open>[[2, 0], [0, 5]]\<close> again before it returns the
  log-density, and it raises when the factorization routine raises.  On the clean
  squared-exponential object \<open>one_point_built\<close> the routine is not called.
\<close>

theorem lnlikelihood_recomputes_on_photoutlier:
  "params_clean two_outliers_built \<and> data_clean two_outliers_built \<and>
   kernel_to_params PhotOutlier (kernel two_outliers_built) = Inr (Outlier 0 [1, 0] [2, 1]) \<and>
   gp_params two_outliers_built = Some (Outlier 0 [1, 0] [2, 1]) \<and>
   lnlikelihood exact_linalg PhotOutlier two_outliers_built [1, 1]
     = (Inr (Finite (- (1 / 2) * (1 / 2 + 1 / 5 + 2 * (ln (sqrt 2) + ln (sqrt 5))
                                   + 2 * ln (2 * pi)))),
        two_outliers_built) \<and>
   lnlikelihood raising_linalg PhotOutlier two_outliers_built [1, 1]
     = (Inl LinAlgError, two_outliers_built\<lparr>params_clean := False\<rparr>) \<and>
   lnlikelihood raising_linalg ExpSquared one_point_built [1]
     = (Inr (Finite (- (1 / 2) * (1 / 3 + 2 * ln (sqrt 3) + ln (2 * pi)))), one_point_built)"
proof -
  have f: "params_clean two_outliers_built" "data_clean two_outliers_built"
    "gp_params two_outliers_built = Some (Outlier 0 [1, 0] [2, 1])"
    "gp_sigma two_outliers_built = Some [1, 1]"
    "factorized_Sigma two_outliers_built = Some [[sqrt 2, 0], [0, sqrt 5]]"
    "log_det two_outliers_built = Some (Finite (2 * (ln (sqrt 2) + ln (sqrt 5))))"
    "kernel two_outliers_built = [2, 1, 1, 0]"
    by (simp_all add: two_outliers_built_def two_outliers_def init_def update_data_def)
  have k: "kernel_to_params PhotOutlier [2, 1, 1, 0] = Inr (Outlier 0 [1, 0] [2, 1])"
    by (simp add: kernel_to_params_def)
  have c1: "compute exact_linalg PhotOutlier two_outliers_built None None None False
              = (None, two_outliers_built)"
    by (simp add: two_outliers_compute(2) two_outliers_rebuild(2))
  have c2: "compute raising_linalg PhotOutlier two_outliers_built None None None False
              = (Some LinAlgError, two_outliers_built\<lparr>params_clean := False\<rparr>)"
    by (simp add: two_outliers_compute(2) two_outliers_rebuild(3))
  have l1: "lnlikelihood exact_linalg PhotOutlier two_outliers_built [1, 1]
     = (Inr (Finite (- (1 / 2) * (1 / 2 + 1 / 5 + 2 * (ln (sqrt 2) + ln (sqrt 5))
                                   + 2 * ln (2 * pi)))),
        two_outliers_built)"
    by (simp add: lnlikelihood_def f c1 two_outliers_solve dot_vv_def np_add_def np_scale_def
          upt_conv_Cons numeral_2_eq_2 del: upt_Suc)
  have l2: "lnlikelihood raising_linalg PhotOutlier two_outliers_built [1, 1]
     = (Inl LinAlgError, two_outliers_built\<lparr>params_clean := False\<rparr>)"
    by (simp add: lnlikelihood_def f c2)
  show ?thesis
    using f k l1 l2 one_point_built_lnlikelihood[of 1] by simp
qed

subsection \<open>\<^verbatim>\<open>predict\<close> raises in every variant\<close>

text \<open>
  Claim C10.  For \<open>PhotOutlier\<close> every call of \<^verbatim>\<open>predict\<close> raises, whatever its arguments:
  the call of \<^verbatim>\<open>construct_covariance_cross\<close> with a positional argument is rejected by the
  override's signature.  \<^verbatim>\<open>construct_covariance_test\<close>, inherited from the base class, raises
  as well, in the inherited \<^verbatim>\<open>construct_kernel\<close>; the body of that method, when it runs,
  raises \<^verbatim>\<open>AttributeError\<close> unless the attribute \<open>Sigma\<close> has been set.
\<close>

theorem photoutlier_predict_raises:
  "predict la PhotOutlier st residual inwave influx = Inl TypeError \<and>
   construct_covariance_cross PhotOutlier st iw ifl = Inl TypeError \<and>
   construct_covariance_test PhotOutlier st iw ifl = Inl TypeError \<and>
   construct_kernel PhotOutlier st x xstar = Inl TypeError \<and>
   base_construct_kernel (st\<lparr>Sigma := None\<rparr>) = Inl AttributeError \<and>
   base_construct_kernel (st\<lparr>Sigma := Some S\<rparr>) = Inr S"
  by (simp add: predict_def construct_covariance_cross_def construct_covariance_test_def
        covariance_test_block_def construct_kernel_def base_construct_kernel_def Let_def)

lemma smooth_test_raises:
  "v \<noteq> PhotOutlier \<Longrightarrow> isl (construct_covariance_test v st iw ifl)"
  by (cases v) (auto simp: construct_covariance_test_def construct_diagonal_def split: sum.splits)

lemma predict_raises: "isl (predict la v st residual inwave influx)"
proof (cases "v = PhotOutlier")
  case True
  then show ?thesis
    by (simp add: predict_def construct_covariance_cross_def Let_def)
next
  case False
  define iw where "iw = (if inwave \<noteq> None then inwave else gp_wave st)"
  define ifl where "ifl = (if inwave \<noteq> None then influx else Some (gp_flux st))"
  obtain e where e: "construct_covariance_test v st iw ifl = Inl e"
    using smooth_test_raises[OF False, of st iw ifl] by (auto simp: isl_def)
  have "predict la v st residual inwave influx =
          (case construct_covariance_cross v st iw ifl of
             Inl e \<Rightarrow> Inl e
           | Inr Sigma_cross \<Rightarrow>
               (case construct_covariance_test v st iw ifl of
                  Inl e \<Rightarrow> Inl e
                | Inr Sigma_test \<Rightarrow>
                    posterior la (factorized_Sigma st) residual Sigma_cross Sigma_test))"
    by (simp only: predict_def Let_def iw_def ifl_def)
  then show ?thesis
    using e by (cases "construct_covariance_cross v st iw ifl") simp_all
qed

lemma one_point_posterior:
  "posterior exact_linalg (Some [[sqrt 3]]) [1] [[1]] [[1]] = Inr ([1 / 3], [[4 / 3]])"
  by (simp add: posterior_def solve_eval dot_mv_def dot_mm_def broadcast2_def bdim_def bidx_def)

text \<open>
  Claim C3 says that \<^verbatim>\<open>predict\<close> returns the posterior mean and the posterior covariance,
  with a posterior variance below the prior variance for in-sample prediction.  In every
  variant and on every object \<^verbatim>\<open>predict\<close> raises.  For the smooth kernels the exception
  comes from \<^verbatim>\<open>construct_diagonal(test=True)\<close>: on \<open>one_point_built\<close> the cross block and the
  test block before that statement are both \<open>[[1]]\<close>, and the call raises \<^verbatim>\<open>TypeError\<close>.
  The last statements of \<^verbatim>\<open>predict\<close>, run on these two blocks and the cached factor, would
  give the variance \<open>4 / 3\<close>, above the prior variance 1: the solve is applied to
  \<^verbatim>\<open>-Sigma_cross.T\<close> and its product is then subtracted.
\<close>

theorem predict_never_returns:
  "(\<forall>la v st residual inwave influx. isl (predict la v st residual inwave influx)) \<and>
   construct_covariance_cross ExpSquared one_point_built (gp_wave one_point_built)
       (Some (gp_flux one_point_built)) = Inr [[1]] \<and>
   covariance_test_block ExpSquared one_point_built (gp_wave one_point_built)
       (Some (gp_flux one_point_built)) = Inr [[1]] \<and>
   construct_covariance_test ExpSquared one_point_built (gp_wave one_point_built)
       (Some (gp_flux one_point_built)) = Inl TypeError \<and>
   predict exact_linalg ExpSquared one_point_built [1] None None = Inl TypeError \<and>
   posterior exact_linalg (factorized_Sigma one_point_built) [1] [[1]] [[1]]
     = Inr ([1 / 3], [[4 / 3]])"
proof -
  have w: "gp_wave one_point_built = Some [0]" "gp_flux one_point_built = Scalar 1"
    "factorized_Sigma one_point_built = Some [[sqrt 3]]"
    "gp_params one_point_built = Some (Smooth 1 1 1)"
    by (simp_all add: one_point_built_def cache_eval)
  have cr: "construct_covariance_cross ExpSquared one_point_built (Some [0]) (Some (Scalar 1))
              = Inr [[1]]"
    by (simp add: construct_covariance_cross_def construct_kernel_def flux_nontrivial_def w)
  have bl: "covariance_test_block ExpSquared one_point_built (Some [0]) (Some (Scalar 1))
              = Inr [[1]]"
    by (simp add: covariance_test_block_def construct_kernel_def flux_nontrivial_def w)
  have te: "construct_covariance_test ExpSquared one_point_built (Some [0]) (Some (Scalar 1))
              = Inl TypeError"
    by (simp add: construct_covariance_test_def construct_diagonal_def bl)
  have pr: "predict exact_linalg ExpSquared one_point_built [1] None None = Inl TypeError"
    by (simp add: predict_def w cr te)
  show ?thesis
    using predict_raises cr bl te pr one_point_posterior by (simp add: w)
qed

subsection \<open>The Matern kernel\<close>

text \<open>The squared-exponential kernel block on a pair of equal coordinate arrays is symmetric.\<close>

lemma expsquared_kernel_symmetric:
  assumes "construct_kernel ExpSquared st (Some x) (Some x) = Inr K"
    and "i < length x" and "j < length x"
  shows "K ! i ! j = K ! j ! i"
proof -
  obtain s asq lsq where p: "gp_params st = Some (Smooth s asq lsq)"
    using assms(1)
    by (auto simp: construct_kernel_def split: option.splits params.splits)
  have "K = map (\<lambda>a. map (\<lambda>b. asq * exp (- ((a - b)\<^sup>2) / (2 * lsq))) x) x"
    using assms(1) p by (simp add: construct_kernel_def)
  then show ?thesis
    using assms(2,3) by (simp add: power2_commute[of "x ! i" "x ! j"])
qed

lemma sqrt3_gt_one: "1 < sqrt (3::real)"
  by (simp add: real_less_rsqrt)

lemma matern_two_points:
  "update_params Matern (two_points [0, k, 0])
     = Inr ((two_points [0, k, 0])\<lparr>gp_params := Some (Smooth 1 (exp k) 1)\<rparr>)"
  by (simp add: cache_eval)

lemma matern_two_points_cov:
  "construct_covariance Matern ((two_points [0, k, 0])\<lparr>gp_params := Some (Smooth 1 (exp k) 1)\<rparr>)
     = Inr [[3, (1 - sqrt 3) * exp (sqrt 3)], [(1 + sqrt 3) * exp (- sqrt 3), 3]]"
  by (simp add: cache_eval smooth_eval Let_def upt_conv_Cons del: upt_Suc)

text \<open>
  Claim C2 says that \<^verbatim>\<open>construct_covariance\<close> is symmetric for every variant.  For \<open>Matern\<close>
  on the wavelengths \<open>[0, 1]\<close> with the kernel vector \<open>[0, 0, 0]\<close> the entry \<open>(0, 1)\<close> is
  negative and the entry \<open>(1, 0)\<close> is positive: the kernel uses the signed difference of the
  coordinates, not its absolute value.
\<close>

theorem matern_covariance_not_symmetric:
  "\<exists>st C. update_params Matern (two_points [0, 0, 0]) = Inr st \<and>
          construct_covariance Matern st = Inr C \<and>
          C = [[3, (1 - sqrt 3) * exp (sqrt 3)], [(1 + sqrt 3) * exp (- sqrt 3), 3]] \<and>
          C ! 0 ! 1 < 0 \<and> 0 < C ! 1 ! 0 \<and> C ! 0 ! 1 \<noteq> C ! 1 ! 0"
proof -
  have neg: "(1 - sqrt 3) * exp (sqrt 3) < 0"
    using sqrt3_gt_one by (simp add: mult_less_0_iff)
  have pos: "0 < (1 + sqrt 3) * exp (- sqrt 3)"
  proof -
    have "0 < 1 + sqrt (3::real)" using sqrt3_gt_one by linarith
    then show ?thesis by (simp add: zero_less_mult_iff)
  qed
  have u: "update_params Matern (two_points [0, 0, 0])
             = Inr ((two_points [0, 0, 0])\<lparr>gp_params := Some (Smooth 1 (exp 0) 1)\<rparr>)"
    by (rule matern_two_points)
  show ?thesis
    apply (rule exI[of _ "(two_points [0, 0, 0])\<lparr>gp_params := Some (Smooth 1 (exp 0) 1)\<rparr>"])
    apply (rule exI[of _ "[[3, (1 - sqrt 3) * exp (sqrt 3)], [(1 + sqrt 3) * exp (- sqrt 3), 3]]"])
    using u matern_two_points_cov[of 0] neg pos by simp
qed


text \<open>
  For the squared-exponential kernel the covariance on two points does tend to the diagonal
  matrix of \<open>\<sigma>\<^sub>i\<^sup>2 + s\<^sup>2\<close> as the amplitude entry \<open>k\<close> of the kernel vector goes to \<open>-\<infinity>\<close>.
\<close>

lemma expsquared_two_points:
  "update_params ExpSquared (two_points [0, k, 0])
     = Inr ((two_points [0, k, 0])\<lparr>gp_params := Some (Smooth 1 (exp k) 1)\<rparr>)"
  by (simp add: cache_eval)

lemma expsquared_two_points_cov:
  "construct_covariance ExpSquared
     ((two_points [0, k, 0])\<lparr>gp_params := Some (Smooth 1 (exp k) 1)\<rparr>)
     = Inr [[exp k + (1\<^sup>2 + 1\<^sup>2), exp k * exp (- (1 / 2))],
            [exp k * exp (- (1 / 2)), exp k + (1\<^sup>2 + 1\<^sup>2)]]"
  by (simp add: cache_eval smooth_eval Let_def upt_conv_Cons del: upt_Suc)

lemma expsquared_amplitude_limit:
  "((\<lambda>k::real. exp k + (1\<^sup>2 + 1\<^sup>2)) \<longlongrightarrow> 1\<^sup>2 + 1\<^sup>2) at_bot"
  "((\<lambda>k::real. exp k * exp (- (1 / 2))) \<longlongrightarrow> 0) at_bot"
proof -
  have e: "((\<lambda>k::real. exp k) \<longlongrightarrow> 0) at_bot"
    by (rule exp_at_bot)
  from tendsto_add[OF e tendsto_const[of "1\<^sup>2 + 1\<^sup>2"]]
  show "((\<lambda>k::real. exp k + (1\<^sup>2 + 1\<^sup>2)) \<longlongrightarrow> 1\<^sup>2 + 1\<^sup>2) at_bot"
    by simp
  from tendsto_mult[OF e tendsto_const[of "exp (- (1 / 2))"]]
  show "((\<lambda>k::real. exp k * exp (- (1 / 2))) \<longlongrightarrow> 0) at_bot"
    by simp
qed

lemma one_point_matern_compute:
  "compute exact_linalg Matern (one_point [0, k, 0]) None None None False
     = (None, (one_point [0, k, 0])\<lparr>gp_params := Some (Smooth 1 (exp k) 1),
                 params_clean := True, data_clean := True,
                 factorized_Sigma := Some [[sqrt 3]],
                 log_det := Some (Finite (2 * ln (sqrt 3)))\<rparr>)"
  by (simp add: cache_eval smooth_eval linalg_eval Let_def)

lemma one_point_matern_lnl:
  "fst (lnlikelihood exact_linalg Matern (one_point [0, k, 0]) [0])
     = Inr (Finite (- (1 / 2) * (2 * ln (sqrt 3) + ln (2 * pi))))"
proof -
  have s: "gp_sigma (one_point [0, k, 0]) = Some [1]"
    by (simp add: cache_eval)
  have z: "cho_solve_1d exact_linalg [[sqrt 3]] [0] = Inr [0]"
    by (simp add: solve_eval)
  show ?thesis
    by (simp add: lnlikelihood_def s one_point_matern_compute z dot_vv_def np_add_def np_scale_def)
qed

lemma ln_three_ne_ln_two: "2 * ln (sqrt 3) + ln (2 * pi) \<noteq> ln (2 * pi * 2)"
proof -
  have a: "2 * ln (sqrt 3) = ln (3::real)"
    by (simp add: ln_sqrt)
  have "0 < 2 * pi" using pi_gt_zero by simp
  then have b: "ln (2 * pi * 2) = ln (2 * pi) + ln 2"
    using ln_mult_pos[of "2 * pi" 2] by simp
  have c: "ln (3::real) \<noteq> ln 2"
    by simp
  show ?thesis using a b c by linarith
qed

text \<open>
  Claim C5 says that for both smooth kernels the covariance tends to the diagonal matrix of
  \<open>\<sigma>\<^sub>i\<^sup>2 + s\<^sup>2\<close> as the amplitude goes to 0, and the likelihood to the independent-Gaussian
  density.  For \<open>Matern\<close> the covariance does not depend on the amplitude entry \<open>k\<close> of the
  kernel vector at all: on two points it has the diagonal \<open>[3, 3]\<close>, not \<open>[2, 2]\<close>, and
  off-diagonal entries different from 0, and on one point the log-likelihood of the
  residual \<open>[0]\<close> is that of the variance 3, not of the variance \<open>1\<^sup>2 + 1\<^sup>2\<close>.
\<close>

theorem matern_ignores_amplitude:
  "\<forall>k. (\<exists>st. update_params Matern (two_points [0, k, 0]) = Inr st \<and>
              gp_params st = Some (Smooth 1 (exp k) 1) \<and>
              construct_covariance Matern st
                = Inr [[3, (1 - sqrt 3) * exp (sqrt 3)], [(1 + sqrt 3) * exp (- sqrt 3), 3]]) \<and>
        fst (lnlikelihood exact_linalg Matern (one_point [0, k, 0]) [0])
          = Inr (Finite (- (1 / 2) * (2 * ln (sqrt 3) + ln (2 * pi)))) \<and>
        independent_gaussian_lnl [0] [1\<^sup>2 + 1\<^sup>2] = - (1 / 2) * ln (2 * pi * 2) \<and>
        - (1 / 2) * (2 * ln (sqrt 3) + ln (2 * pi)) \<noteq> - (1 / 2) * ln (2 * pi * 2)"
proof (intro allI conjI)
  fix k :: real
  show "\<exists>st. update_params Matern (two_points [0, k, 0]) = Inr st \<and>
              gp_params st = Some (Smooth 1 (exp k) 1) \<and>
              construct_covariance Matern st
                = Inr [[3, (1 - sqrt 3) * exp (sqrt 3)], [(1 + sqrt 3) * exp (- sqrt 3), 3]]"
    using matern_two_points[of k] matern_two_points_cov[of k] by simp
  show "fst (lnlikelihood exact_linalg Matern (one_point [0, k, 0]) [0])
          = Inr (Finite (- (1 / 2) * (2 * ln (sqrt 3) + ln (2 * pi))))"
    by (rule one_point_matern_lnl)
  show "independent_gaussian_lnl [0] [1\<^sup>2 + 1\<^sup>2] = - (1 / 2) * ln (2 * pi * 2)"
    by (simp add: independent_gaussian_lnl_def)
  show "- (1 / 2) * (2 * ln (sqrt 3) + ln (2 * pi)) \<noteq> - (1 / 2) * ln (2 * pi * 2)"
    using ln_three_ne_ln_two by simp
qed

subsection \<open>Flux scaling of the three blocks\<close>

lemma flux_state:
  "update_params ExpSquared one_point_flux
     = Inr (one_point_flux\<lparr>gp_params := Some (Smooth 1 1 1)\<rparr>)"
  by (simp add: cache_eval)

lemmas scale_eval =
  scale_outer_def broadcast2_def as_column_def as_row_def assert_influx_def

text \<open>
  Claim C6 says that every block builder scales the kernel term \<open>K\<^sub>i\<^sub>j\<close> by the flux at
  point \<open>i\<close> and the flux at point \<open>j\<close>.  With the training flux \<open>[2]\<close>, the query wavelength
  \<open>[3]\<close> and the query flux \<open>[5]\<close>, \<^verbatim>\<open>construct_covariance\<close> and \<^verbatim>\<open>construct_covariance_cross\<close>
  do so, but the block of \<^verbatim>\<open>construct_covariance_test\<close> is \<open>5 \<cdot> 1 \<cdot> 3\<close>, the query flux times
  the kernel times the query wavelength, and the method then raises.
\<close>

theorem test_block_scaled_by_wavelength:
  "\<exists>st. update_params ExpSquared one_point_flux = Inr st \<and>
        gp_flux st = Vector [2] \<and>
        construct_covariance ExpSquared st = Inr [[2 * 1 * 2 + (1\<^sup>2 + 1\<^sup>2)]] \<and>
        construct_covariance_cross ExpSquared st (Some [3]) (Some (Vector [5]))
          = Inr [[5 * exp (- (9 / 2)) * 2]] \<and>
        covariance_test_block ExpSquared st (Some [3]) (Some (Vector [5])) = Inr [[5 * 1 * 3]] \<and>
        construct_covariance_test ExpSquared st (Some [3]) (Some (Vector [5])) = Inl TypeError"
proof -
  let ?st = "one_point_flux\<lparr>gp_params := Some (Smooth 1 1 1)\<rparr>"
  have f: "gp_flux ?st = Vector [2]"
    by (simp add: cache_eval)
  have c: "construct_covariance ExpSquared ?st = Inr [[2 * 1 * 2 + (1\<^sup>2 + 1\<^sup>2)]]"
    by (simp add: cache_eval smooth_eval scale_eval)
  have x: "construct_covariance_cross ExpSquared ?st (Some [3]) (Some (Vector [5]))
             = Inr [[5 * exp (- (9 / 2)) * 2]]"
    by (simp add: cache_eval construct_covariance_cross_def smooth_eval scale_eval)
  have b: "covariance_test_block ExpSquared ?st (Some [3]) (Some (Vector [5])) = Inr [[5 * 1 * 3]]"
    by (simp add: cache_eval covariance_test_block_def smooth_eval scale_eval)
  have t: "construct_covariance_test ExpSquared ?st (Some [3]) (Some (Vector [5])) = Inl TypeError"
    by (simp add: construct_covariance_test_def b construct_diagonal_def)
  show ?thesis
    using flux_state f c x b t by blast
qed

end
